theory Spec2Isabelle
  imports Complex_Main "HOL-Library.Sublist"
begin

section \<open>Shared data model of the knowledge pipeline\<close>

text \<open>
  Go's \<open>float32\<close> values are only compared (\<open>>=\<close>) and copied by the code modelled
  here, never computed with. Finite floats embed into the reals with their order, so a
  score or a vector component is a \<open>real\<close>. A NaN score (on which every Go comparison
  is false) has no counterpart: a list that contains one is not sorted by score in any
  sense, and the claims about scores are about sorted lists.
\<close>

type_synonym float32 = real

text \<open>Values of a Go \<open>map[string]any\<close> as they occur in document metadata.\<close>

datatype any = AnyString string | AnyInt int

type_synonym metadata = "string \<rightharpoonup> any"

text \<open>\<open>vs.Document\<close> (pkg/vectorstore/types): the fields the code under study reads or writes.\<close>

text \<open>
  Go errors as values. \<open>Wrapped msg err\<close> is \<open>fmt.Errorf("msg: %w", err)\<close>;
  \<open>ExternalError\<close> is an error value handed back by a collaborator (a backend, the
  operating system, a library) whose text the code under study never inspects;
  \<open>NilPointerPanic\<close> is the run-time panic of a nil pointer dereference.
\<close>

datatype error =
    FilenameRequired
  | DatasetNotFound string
  | UnknownDeduplicationFunction string
  | UnsupportedFileTypeError string string
  | MultipleWorkspacePaths
  | MultipleDefaultFlows
  | NeitherIngestionNorRetrieval string
  | NoFiletypes string nat
  | TargetFormatRequired string nat
  | NilPointerPanic
  | IndexOutOfRangePanic
  | ExternalError string
  | Wrapped string error

record Document =
  ID :: string
  Content :: string
  Metadata :: metadata
  SimilarityScore :: float32
  Embedding :: "float32 list"

section \<open>Similarity postprocessor (pkg/datastore/postprocessors/similarity.go)\<close>

record Response =
  ResultDocuments :: "Document list"

record RetrievalResponse =
  Responses :: "Response list"

record SimilarityPostprocessor =
  Threshold :: float32
  KeepMin :: int

text \<open>
  The inner loop of \<open>Transform\<close> (lines 22-32), with the slice \<open>filteredDocs\<close> as the
  accumulator: a document at or above the threshold is appended; one below it is appended
  only while fewer than \<open>KeepMin\<close> documents have been kept.
\<close>

fun filterLoop :: "SimilarityPostprocessor \<Rightarrow> Document list \<Rightarrow> Document list \<Rightarrow> Document list" where
  "filterLoop s filteredDocs [] = filteredDocs"
| "filterLoop s filteredDocs (doc # rest) =
     (if SimilarityScore doc \<ge> Threshold s then filterLoop s (filteredDocs @ [doc]) rest
      else if int (length filteredDocs) < KeepMin s then filterLoop s (filteredDocs @ [doc]) rest
      else filterLoop s filteredDocs rest)"

text \<open>
  \<open>Transform\<close> (lines 18-37): every entry of \<open>response.Responses\<close> gets its
  \<open>ResultDocuments\<close> replaced by the filtered slice, starting from an empty
  \<open>filteredDocs\<close>; the returned error is always nil, so the model returns the updated
  response.
\<close>

definition Transform :: "SimilarityPostprocessor \<Rightarrow> RetrievalResponse \<Rightarrow> RetrievalResponse" where
  "Transform s response =
     response\<lparr>Responses :=
       map (\<lambda>resp. resp\<lparr>ResultDocuments := filterLoop s [] (ResultDocuments resp)\<rparr>)
         (Responses response)\<rparr>"

text \<open>
  The spec's wording of what is kept, as a second definition: (a) every document at or
  above the threshold and (b) the first below-threshold documents until \<open>KeepMin\<close>
  documents are kept in total.
\<close>

definition atOrAbove :: "SimilarityPostprocessor \<Rightarrow> Document \<Rightarrow> bool" where
  "atOrAbove s doc = (SimilarityScore doc \<ge> Threshold s)"

definition spec_kept :: "SimilarityPostprocessor \<Rightarrow> Document list \<Rightarrow> Document list" where
  "spec_kept s docs =
     filter (atOrAbove s) docs
       @ take (nat (KeepMin s) - length (filter (atOrAbove s) docs))
           (filter (\<lambda>doc. \<not> atOrAbove s doc) docs)"

definition sortedDesc :: "Document list \<Rightarrow> bool" where
  "sortedDesc docs = sorted_wrt (\<lambda>a b. SimilarityScore a \<ge> SimilarityScore b) docs"

section \<open>Flow configuration (pkg/flows/config/config.go)\<close>

record GenericBaseConfig =
  Name :: string
  Options :: "(string \<times> any) list"

text \<open>\<open>ConverterConfig\<close> embeds \<open>GenericBaseConfig\<close> and \<open>flows.ConverterOpts\<close>
  (\<open>TargetFormat\<close>, \<open>MustTry\<close>: the two fields config.go reads at lines 163, 228, 229).\<close>

record ConverterConfig = GenericBaseConfig +
  TargetFormat :: string
  MustTry :: bool

record IngestionFlowConfig =
  Filetypes :: "string list"
  Converter :: ConverterConfig
  DocumentLoader :: GenericBaseConfig
  TextSplitter :: GenericBaseConfig
  Transformers :: "GenericBaseConfig list"

record RetrievalFlowConfig =
  QueryModifiers :: "GenericBaseConfig list"
  Retriever :: "GenericBaseConfig option"
  Postprocessors :: "GenericBaseConfig list"

record FlowConfigEntry =
  Default :: bool
  Globals :: "(string \<times> any) list"
  Ingestion :: "IngestionFlowConfig list"
  Retrieval :: "RetrievalFlowConfig option"

text \<open>
  \<open>Flows\<close> is a Go map. \<open>Validate\<close> ranges over it, and Go fixes no iteration
  order: the association list below is the map in the order one run of the loop visits
  it, and the results about \<open>Validate\<close> hold for every such order.
\<close>

record FlowConfig =
  Flows :: "(string \<times> FlowConfigEntry) list"
  Datasets :: "(string \<times> string) list"

text \<open>Lines 156-167: the loop over \<open>flow.Ingestion\<close>, with the index \<open>idx\<close>.\<close>

fun validateIngestion :: "string \<Rightarrow> nat \<Rightarrow> IngestionFlowConfig list \<Rightarrow> error option" where
  "validateIngestion name idx [] = None"
| "validateIngestion name idx (ingestion # rest) =
     (if length (Filetypes ingestion) = 0 then Some (NoFiletypes name idx)
      else if Name (Converter ingestion) \<noteq> [] \<and> TargetFormat (Converter ingestion) = []
        then Some (TargetFormatRequired name idx)
      else validateIngestion name (Suc idx) rest)"

text \<open>Lines 141-169: the loop over \<open>f.Flows\<close>, with the flag \<open>hasDefault\<close>.\<close>

fun validateFlows :: "bool \<Rightarrow> (string \<times> FlowConfigEntry) list \<Rightarrow> error option" where
  "validateFlows hasDefault [] = None"
| "validateFlows hasDefault ((name, flow) # rest) =
     (if Default flow \<and> hasDefault then Some MultipleDefaultFlows
      else if length (Ingestion flow) = 0 \<and> Retrieval flow = None
        then Some (NeitherIngestionNorRetrieval name)
      else (case validateIngestion name 0 (Ingestion flow) of
              Some err \<Rightarrow> Some err
            | None \<Rightarrow> validateFlows (hasDefault \<or> Default flow) rest))"

definition Validate :: "FlowConfig \<Rightarrow> error option" where
  "Validate f = validateFlows False (Flows f)"

text \<open>
  Loading (lines 93-138). Reading a file, looking a blueprint up, expanding environment
  variables and decoding JSON or YAML are done by the operating system and by libraries:
  they are the three functions of \<open>LoadEnv\<close>. A result is the pair Go returns, the
  configuration pointer and the error.
\<close>

record LoadEnv =
  ReadFile :: "string \<Rightarrow> error + string"
  GetBlueprint :: "string \<Rightarrow> error + string"
  Decode :: "string \<Rightarrow> error + FlowConfig"

definition FromBytes :: "LoadEnv \<Rightarrow> string \<Rightarrow> FlowConfig option \<times> error option" where
  "FromBytes env content =
     (case Decode env content of
        Inl err \<Rightarrow> (None, Some err)
      | Inr config \<Rightarrow> (Some config, Validate config))"

definition FromFile :: "LoadEnv \<Rightarrow> string \<Rightarrow> FlowConfig option \<times> error option" where
  "FromFile env filename =
     (case ReadFile env filename of
        Inl err \<Rightarrow> (None, Some err)
      | Inr content \<Rightarrow> FromBytes env content)"

definition FromBlueprint :: "LoadEnv \<Rightarrow> string \<Rightarrow> FlowConfig option \<times> error option" where
  "FromBlueprint env name =
     (case GetBlueprint env name of
        Inl err \<Rightarrow> (None, Some err)
      | Inr bp \<Rightarrow> FromBytes env bp)"

definition hasPrefix :: "string \<Rightarrow> string \<Rightarrow> bool" where
  "hasPrefix s pre = (take (length pre) s = pre)"

definition trimPrefix :: "string \<Rightarrow> string \<Rightarrow> string" where
  "trimPrefix s pre = (if hasPrefix s pre then drop (length pre) s else s)"

definition Load :: "LoadEnv \<Rightarrow> string \<Rightarrow> FlowConfig option \<times> error option" where
  "Load env reference =
     (if hasPrefix reference ''blueprint:''
      then FromBlueprint env (trimPrefix reference ''blueprint:'')
      else FromFile env reference)"

text \<open>The four violations as the spec words them, each a property of the whole configuration.\<close>

definition moreThanOneDefault :: "FlowConfig \<Rightarrow> bool" where
  "moreThanOneDefault f = (1 < length (filter (\<lambda>(name, flow). Default flow) (Flows f)))"

definition someFlowEmpty :: "FlowConfig \<Rightarrow> bool" where
  "someFlowEmpty f =
     (\<exists>(name, flow) \<in> set (Flows f). Ingestion flow = [] \<and> Retrieval flow = None)"

definition someIngestionWithoutFiletypes :: "FlowConfig \<Rightarrow> bool" where
  "someIngestionWithoutFiletypes f =
     (\<exists>(name, flow) \<in> set (Flows f). \<exists>ingestion \<in> set (Ingestion flow). Filetypes ingestion = [])"

definition someConverterWithoutTarget :: "FlowConfig \<Rightarrow> bool" where
  "someConverterWithoutTarget f =
     (\<exists>(name, flow) \<in> set (Flows f). \<exists>ingestion \<in> set (Ingestion flow).
        Name (Converter ingestion) \<noteq> [] \<and> TargetFormat (Converter ingestion) = [])"

text \<open>The violations again, flow by flow, as the loops meet them.\<close>

definition ingestionBad :: "IngestionFlowConfig \<Rightarrow> bool" where
  "ingestionBad ingestion =
     (Filetypes ingestion = [] \<or>
       (Name (Converter ingestion) \<noteq> [] \<and> TargetFormat (Converter ingestion) = []))"

definition flowBad :: "FlowConfigEntry \<Rightarrow> bool" where
  "flowBad flow = ((Ingestion flow = [] \<and> Retrieval flow = None) \<or>
      (\<exists>ingestion \<in> set (Ingestion flow). ingestionBad ingestion))"

definition numDefault :: "(string \<times> FlowConfigEntry) list \<Rightarrow> nat" where
  "numDefault flows = length (filter (\<lambda>(name, flow). Default flow) flows)"

section \<open>The index (pkg/index/types, pkg/index)\<close>

text \<open>
  The type declarations of the index are not under src; the records below hold the
  fields that \<open>Datastore.Ingest\<close> and the client read or write.
\<close>

record EmbeddingModelProviderConfig =
  Type :: string
  Config :: "(string \<times> any) list"

record Dataset =
  Dataset_ID :: string
  EmbeddingsProviderConfig :: "EmbeddingModelProviderConfig option"

record FileMetadata =
  File_Name :: string
  AbsolutePath :: string
  Size :: int
  ModifiedAt :: int

record IndexDocument =
  Doc_ID :: string
  FileID :: string
  Doc_Dataset :: string
  Index :: int

text \<open>\<open>types.File\<close> embeds \<open>FileMetadata\<close> (Ingest, lines 277-290).\<close>

record File = FileMetadata +
  File_ID :: string
  File_Dataset :: string
  Documents :: "IndexDocument list"

record Index =
  datasets :: "string \<rightharpoonup> Dataset"
  files :: "File list"

section \<open>The embedding model provider (pkg/datastore/embeddings)\<close>

text \<open>
  The provider interface, by the methods Ingest calls: \<open>Name()\<close>,
  \<open>EmbeddingModelName()\<close>, \<open>UseEmbeddingModel(m)\<close> and \<open>Config()\<close>. The
  configuration \<open>Config()\<close> returns is only handed to \<open>CompareRequiredFields\<close>; the
  model hands the provider value itself over.
\<close>

record EmbeddingModelProvider =
  Provider_Name :: string
  EmbeddingModelName :: string

text \<open>
  Modelled from the spec: the provider implementations are not under src. After
  \<open>UseEmbeddingModel(m)\<close> the provider uses model \<open>m\<close> ("prefer the dataset's existing
  model", section 4.7 step 2), which \<open>EmbeddingModelName()\<close> then reports.
\<close>

definition UseEmbeddingModel :: "string \<Rightarrow> EmbeddingModelProvider \<Rightarrow> EmbeddingModelProvider" where
  "UseEmbeddingModel m p = p\<lparr>EmbeddingModelName := m\<rparr>"

section \<open>The vector store (pkg/vectorstore/pgvector/pgvector.go)\<close>

text \<open>
  The two tables of the store: the collection table (name, uuid) and the embedding table,
  whose rows are (uuid, document, embedding, cmetadata, collection_id) as created at lines
  165-202. \<open>embedCalls\<close> is a ghost field: the texts handed to the embedding function, in
  call order.
\<close>

record Row =
  uuid :: string
  document :: string
  embedding :: "float32 list"
  cmetadata :: metadata
  collection_id :: string

record VectorStore =
  collections :: "(string \<times> string) list"
  rows :: "Row list"
  embedCalls :: "string list"

text \<open>
  \<open>cg.WhereDocument\<close> (chromem-go): Ingest passes one filter, with the operator
  \<open>WhereDocumentOperatorEquals\<close>; the other operators of the library are not modelled.
\<close>

datatype WhereDocumentOperator = WhereDocumentOperatorEquals

record WhereDocument =
  Operator :: WhereDocumentOperator
  Value :: string

text \<open>
  PostgreSQL's \<open>cmetadata ->> key\<close> gives a JSON value as text: a string as itself, a
  number in decimal.
\<close>

definition digitChar :: "nat \<Rightarrow> char" where
  "digitChar n = ''0123456789'' ! n"

function natString :: "nat \<Rightarrow> string" where
  "natString n = (if n < 10 then [digitChar n] else natString (n div 10) @ [digitChar (n mod 10)])"
  by pat_completeness auto
termination
  by (relation "measure id") auto

definition jsonText :: "any \<Rightarrow> string" where
  "jsonText v =
     (case v of
        AnyString s \<Rightarrow> s
      | AnyInt i \<Rightarrow> (if i < 0 then CHR ''-'' # natString (nat (- i)) else natString (nat i)))"

text \<open>
  \<open>buildWhereClause\<close> (lines 561-592) builds the SQL text of a conjunction; the model
  gives the condition it denotes on a row: \<open>TRUE\<close> without filters, else every
  \<open>(cmetadata ->> k) = v\<close> of \<open>where\<close> and every condition of \<open>whereDocument\<close>.
  Modelled from the spec: \<open>helper.BuildWhereDocumentClauseIndexed\<close> is not under src;
  for the equality operator it compares the \<open>document\<close> column with the value
  ("content-identical existing documents", section 4.7 step 7).
\<close>

definition whereDocumentMatches :: "WhereDocument \<Rightarrow> Row \<Rightarrow> bool" where
  "whereDocumentMatches wd row =
     (case Operator wd of WhereDocumentOperatorEquals \<Rightarrow> document row = Value wd)"

definition metadataMatches :: "string \<times> string \<Rightarrow> Row \<Rightarrow> bool" where
  "metadataMatches kv row =
     (case cmetadata row (fst kv) of None \<Rightarrow> False | Some x \<Rightarrow> jsonText x = snd kv)"

definition buildWhereClause ::
  "(string \<times> string) list \<Rightarrow> WhereDocument list \<Rightarrow> Row \<Rightarrow> bool" where
  "buildWhereClause whereMap whereDocument row =
     (if length whereMap + length whereDocument = 0 then True
      else list_all (\<lambda>kv. metadataMatches kv row) whereMap
           \<and> list_all (\<lambda>wd. whereDocumentMatches wd row) whereDocument)"

section \<open>Ingestion flows (pkg/flows)\<close>

text \<open>
  \<open>flows.IngestionFlow\<close>: the filetypes it is configured for, an optional converter, a
  loader (nil when none is resolved), a splitter and the transformer chain. The
  functions stand for the loader, splitter and transformer implementations.
\<close>

record IngestionFlow =
  Flow_Filetypes :: "string list"
  Flow_Converter :: "(string \<Rightarrow> error + string) option"
  Flow_MustTry :: bool
  Flow_Load :: "(string \<Rightarrow> error + Document list) option"
  Splitter :: "(Document list \<Rightarrow> error + Document list) option"
  Transformations :: "(Document list \<Rightarrow> error + Document list) list"

definition emptyIngestionFlow :: IngestionFlow where
  "emptyIngestionFlow =
     \<lparr>Flow_Filetypes = [], Flow_Converter = None, Flow_MustTry = False, Flow_Load = None,
      Splitter = None, Transformations = []\<rparr>"

text \<open>
  Modelled from the spec: \<open>IngestionFlow.SupportsFiletype\<close> is not under src. Section 4.5:
  a flow entry is selected when its "filetype set contains" the filetype.
\<close>

definition SupportsFiletype :: "IngestionFlow \<Rightarrow> string \<Rightarrow> bool" where
  "SupportsFiletype flow filetype = (filetype \<in> set (Flow_Filetypes flow))"

text \<open>
  Modelled from the spec: \<open>transformers.ExtraMetadata.Transform\<close> is not under src.
  Section 4.4: a transformer of this kind merges its metadata map into each document's
  metadata; section 3: the metadata of a document "always carries" the mandatory keys.
\<close>

definition ExtraMetadata_Transform :: "metadata \<Rightarrow> Document list \<Rightarrow> error + Document list" where
  "ExtraMetadata_Transform m docs = Inr (map (\<lambda>doc. doc\<lparr>Metadata := Metadata doc ++ m\<rparr>) docs)"

text \<open>
  Modelled from the spec: \<open>IngestionFlow.Run\<close> is not under src. Section 4.5: "(1)
  optional format Converter [...] if the converter is marked must try and fails, the flow
  fails; otherwise a failed optional converter is skipped and original bytes are used; (2)
  Loader; (3) Splitter; (4) Transformer chain"; section 4.4: "applied in configured order
  [...] first transformer error aborts the remaining chain".
\<close>

fun runTransformations ::
  "(Document list \<Rightarrow> error + Document list) list \<Rightarrow> Document list \<Rightarrow> error + Document list" where
  "runTransformations [] docs = Inr docs"
| "runTransformations (t # ts) docs =
     (case t docs of Inl err \<Rightarrow> Inl err | Inr docs' \<Rightarrow> runTransformations ts docs')"

definition runConverter :: "IngestionFlow \<Rightarrow> string \<Rightarrow> error + string" where
  "runConverter flow content =
     (case Flow_Converter flow of
        None \<Rightarrow> Inr content
      | Some conv \<Rightarrow>
          (case conv content of
             Inr converted \<Rightarrow> Inr converted
           | Inl err \<Rightarrow> (if Flow_MustTry flow then Inl err else Inr content)))"

definition Run :: "IngestionFlow \<Rightarrow> string \<Rightarrow> string \<Rightarrow> error + Document list" where
  "Run flow content filename =
     (case runConverter flow content of
        Inl err \<Rightarrow> Inl err
      | Inr bytes \<Rightarrow>
          (case Flow_Load flow of
             None \<Rightarrow> Inl (UnsupportedFileTypeError [] filename)
           | Some load \<Rightarrow>
               (case load bytes of
                  Inl err \<Rightarrow> Inl err
                | Inr raw \<Rightarrow>
                    (case (case Splitter flow of None \<Rightarrow> Inr raw | Some split \<Rightarrow> split raw) of
                       Inl err \<Rightarrow> Inl err
                     | Inr chunks \<Rightarrow> runTransformations (Transformations flow) chunks))))"

text \<open>
  Modelled from the spec: \<open>vs.SortAndEnsureDocIndex\<close> is not under src. Section 4.7 step
  5: "Assign contiguous chunk indices to output documents"; section 4.3: "output preserves
  source order via an index assigned after all splitting completes". The documents keep
  the order the flow produced and the i-th gets the metadata entry \<open>docIndex = i\<close>.
\<close>

definition SortAndEnsureDocIndex :: "Document list \<Rightarrow> Document list" where
  "SortAndEnsureDocIndex docs =
     map (\<lambda>(i, doc). doc\<lparr>Metadata := (Metadata doc)(''docIndex'' \<mapsto> AnyInt (int i))\<rparr>)
       (enumerate 0 docs)"

section \<open>The datastore and its collaborators\<close>

text \<open>
  \<open>Datastore\<close>: the index, the vector store and the embedding model provider that
  \<open>Ingest\<close> reaches through its receiver \<open>s\<close>. \<open>warnings\<close> is a ghost field: the
  messages of the \<open>slog.Warn\<close> calls, in order.
\<close>

record Datastore =
  IndexDB :: Index
  Vectorstore :: VectorStore
  EmbeddingModelProvider :: EmbeddingModelProvider
  warnings :: "string list"

text \<open>
  \<open>IngestOpts\<close> (part_003, lines 25-32). A deduplication function receives the datastore
  and the options; so that the options can hold such a function, the record is declared in
  two steps and the function is given every field but itself. It may change the datastore
  it is handed, so it returns it.
\<close>

record IngestOptsData =
  FileMetadata :: "FileMetadata option"
  IsDuplicateFuncName :: string
  IngestionFlows :: "IngestionFlow list"
  ExtraMetadata :: "(string \<times> any) list"
  ReuseEmbeddings :: bool

type_synonym IsDuplicateFunc =
  "Datastore \<Rightarrow> string \<Rightarrow> IngestOptsData \<Rightarrow> Datastore \<times> (error + bool)"

record IngestOpts = IngestOptsData +
  IsDuplicateFunc :: "IsDuplicateFunc option"

text \<open>
  What one call of \<open>Ingest\<close> gets from outside the code under src: the process
  environment, the UUID generator, the embedding capability, the functions of this
  repository that are not under src and have no state (filetype detection, the
  deduplication registry and its default, the provider configuration helpers, the flow
  defaults), and \<open>dbErr\<close>, which says for each backend operation whether it fails in
  this call and with which error.
\<close>

record Env =
  Getenv :: "string \<Rightarrow> string"
  dbErr :: "string \<Rightarrow> error option"
  NewUUID :: "error + string"
  embeddingFunc :: "string \<Rightarrow> error + float32 list"
  GetFiletype :: "string \<Rightarrow> string \<Rightarrow> error + string"
  IsDuplicateFuncs :: "string \<rightharpoonup> IsDuplicateFunc"
  DedupeUpsert :: IsDuplicateFunc
  AsEmbeddingModelProviderConfig :: "EmbeddingModelProvider \<Rightarrow> error + EmbeddingModelProviderConfig"
  ProviderFromConfig :: "EmbeddingModelProviderConfig \<Rightarrow> error + EmbeddingModelProvider"
  CompareRequiredFields :: "EmbeddingModelProvider \<Rightarrow> EmbeddingModelProvider \<Rightarrow> error option"
  FillDefaults :: "IngestionFlow \<Rightarrow> string \<Rightarrow> error + IngestionFlow"

subsection \<open>Index operations\<close>

text \<open>
  Modelled from the spec: \<open>Datastore.GetDataset\<close>, \<open>Datastore.UpdateDataset\<close>,
  \<open>Datastore.GetDatasetForDocument\<close> and \<open>Index.CreateFile\<close> are not under src (the
  interface of part_004 declares the index operations). Section 6: the index "persists
  Dataset/File/Document relationships; must support point lookups by ID"; section 4.7
  step 2: "attach the caller's currently configured embedding provider/model as the
  dataset's permanent binding"; step 9: "Record the File and its Documents in the index".
  A lookup of a dataset that does not exist yields nil without an error, which is what
  Ingest tests at line 50.
\<close>

definition GetDataset :: "Env \<Rightarrow> Datastore \<Rightarrow> string \<Rightarrow> error + Dataset option" where
  "GetDataset env s datasetID =
     (case dbErr env ''Index.GetDataset'' of
        Some err \<Rightarrow> Inl err
      | None \<Rightarrow> Inr (datasets (IndexDB s) datasetID))"

definition UpdateDataset :: "Env \<Rightarrow> Datastore \<Rightarrow> Dataset \<Rightarrow> Datastore \<times> (error + Dataset)" where
  "UpdateDataset env s updatedDataset =
     (case dbErr env ''Index.UpdateDataset'' of
        Some err \<Rightarrow> (s, Inl err)
      | None \<Rightarrow>
          (case datasets (IndexDB s) (Dataset_ID updatedDataset) of
             None \<Rightarrow> (s, Inl (DatasetNotFound (Dataset_ID updatedDataset)))
           | Some origDS \<Rightarrow>
               (let ds = (case EmbeddingsProviderConfig updatedDataset of
                            None \<Rightarrow> origDS
                          | Some cfg \<Rightarrow> origDS\<lparr>EmbeddingsProviderConfig := Some cfg\<rparr>)
                in (s\<lparr>IndexDB := (IndexDB s)\<lparr>datasets :=
                        (datasets (IndexDB s))(Dataset_ID updatedDataset \<mapsto> ds)\<rparr>\<rparr>,
                    Inr ds))))"

definition CreateFile :: "Env \<Rightarrow> Datastore \<Rightarrow> File \<Rightarrow> Datastore \<times> error option" where
  "CreateFile env s file =
     (case dbErr env ''Index.CreateFile'' of
        Some err \<Rightarrow> (s, Some err)
      | None \<Rightarrow> (s\<lparr>IndexDB := (IndexDB s)\<lparr>files := files (IndexDB s) @ [file]\<rparr>\<rparr>, None))"

definition GetDatasetForDocument :: "Env \<Rightarrow> Datastore \<Rightarrow> string \<Rightarrow> error + Dataset" where
  "GetDatasetForDocument env s documentID =
     (case dbErr env ''Index.GetDatasetForDocument'' of
        Some err \<Rightarrow> Inl err
      | None \<Rightarrow>
          (case find (\<lambda>file. documentID \<in> set (map Doc_ID (Documents file))) (files (IndexDB s)) of
             None \<Rightarrow> Inl (ExternalError ''document not found'')
           | Some file \<Rightarrow>
               (case datasets (IndexDB s) (File_Dataset file) of
                  None \<Rightarrow> Inl (DatasetNotFound (File_Dataset file))
                | Some ds \<Rightarrow> Inr ds)))"

subsection \<open>Vector store operations (pgvector.go)\<close>

text \<open>\<open>getCollectionUUID\<close> (lines 235-242): the query fails when no collection has the name.\<close>

definition getCollectionUUID :: "Env \<Rightarrow> VectorStore \<Rightarrow> string \<Rightarrow> error + string" where
  "getCollectionUUID env v collection =
     (case dbErr env ''pgvector.getCollectionUUID'' of
        Some err \<Rightarrow> Inl err
      | None \<Rightarrow>
          (case map_of (collections v) collection of
             None \<Rightarrow> Inl (ExternalError ''no rows in result set'')
           | Some cuuid \<Rightarrow> Inr cuuid))"

text \<open>
  \<open>RemoveDocument\<close> (lines 462-493): nothing to do in a collection without rows; with a
  \<open>where\<close> filter the rows of the collection that satisfy the clause are deleted, else
  the row with the given uuid.
\<close>

definition RemoveDocument ::
  "Env \<Rightarrow> VectorStore \<Rightarrow> string \<Rightarrow> string \<Rightarrow> (string \<times> string) list \<Rightarrow> WhereDocument list
     \<Rightarrow> VectorStore \<times> error option" where
  "RemoveDocument env v documentID collection whereMap whereDocument =
     (case getCollectionUUID env v collection of
        Inl err \<Rightarrow> (v, Some (Wrapped (''collection '' @ collection @ '' not found'') err))
      | Inr cid \<Rightarrow>
          (case dbErr env ''pgvector.RemoveDocument.count'' of
             Some err \<Rightarrow> (v, Some err)
           | None \<Rightarrow>
               (if length (filter (\<lambda>row. collection_id row = cid) (rows v)) = 0 then (v, None)
                else (case dbErr env ''pgvector.RemoveDocument.delete'' of
                        Some err \<Rightarrow> (v, Some err)
                      | None \<Rightarrow>
                          (if length whereMap > 0
                           then (v\<lparr>rows := filter (\<lambda>row. \<not> (collection_id row = cid
                                     \<and> buildWhereClause whereMap whereDocument row)) (rows v)\<rparr>, None)
                           else (v\<lparr>rows := filter (\<lambda>row. \<not> (uuid row = documentID
                                     \<and> collection_id row = cid)) (rows v)\<rparr>, None))))))"

text \<open>\<open>GetDocuments\<close> (lines 514-551): the rows that satisfy the clause, in the
  collection when one is named, as documents.\<close>

definition rowDocument :: "Row \<Rightarrow> Document" where
  "rowDocument row =
     \<lparr>ID = uuid row, Content = document row, Metadata = cmetadata row, SimilarityScore = 0,
      Embedding = embedding row\<rparr>"

definition GetDocuments ::
  "Env \<Rightarrow> VectorStore \<Rightarrow> string \<Rightarrow> (string \<times> string) list \<Rightarrow> WhereDocument list
     \<Rightarrow> error + Document list" where
  "GetDocuments env v collection whereMap whereDocument =
     (case (if collection \<noteq> []
            then (case getCollectionUUID env v collection of
                    Inl err \<Rightarrow> Inl err
                  | Inr cid \<Rightarrow> Inr (\<lambda>row. collection_id row = cid))
            else Inr (\<lambda>row. True)) of
        Inl err \<Rightarrow> Inl err
      | Inr whereCol \<Rightarrow>
          (case dbErr env ''pgvector.GetDocuments'' of
             Some err \<Rightarrow> Inl err
           | None \<Rightarrow>
               Inr (map rowDocument
                      (filter (\<lambda>row. whereCol row \<and> buildWhereClause whereMap whereDocument row)
                         (rows v)))))"

text \<open>
  \<open>AddDocuments\<close> (lines 277-365). The goroutines of lines 313-348 are run here one
  after the other, in document order: a document that brings an embedding keeps it, the
  others are embedded; the first embedding failure becomes \<open>sharedErr\<close>, the later
  documents are not started and no batch is sent. \<open>embedAll\<close> returns the texts it had
  embedded and either the error or the vector of each document.
\<close>

fun embedAll :: "Env \<Rightarrow> Document list \<Rightarrow> string list \<times> (error + float32 list list)" where
  "embedAll env [] = ([], Inr [])"
| "embedAll env (doc # rest) =
     (if length (Embedding doc) > 0
      then (case embedAll env rest of
              (calls, Inl err) \<Rightarrow> (calls, Inl err)
            | (calls, Inr vecs) \<Rightarrow> (calls, Inr (Embedding doc # vecs)))
      else (case embeddingFunc env (Content doc) of
              Inl err \<Rightarrow> ([Content doc], Inl (Wrapped (''failed to embed document '' @ ID doc) err))
            | Inr vec \<Rightarrow>
                (case embedAll env rest of
                   (calls, Inl err) \<Rightarrow> (Content doc # calls, Inl err)
                 | (calls, Inr vecs) \<Rightarrow> (Content doc # calls, Inr (vec # vecs)))))"

definition insertRow :: "string \<Rightarrow> Document \<times> float32 list \<Rightarrow> Row" where
  "insertRow cid dv =
     \<lparr>uuid = ID (fst dv), document = Content (fst dv), embedding = snd dv,
      cmetadata = Metadata (fst dv), collection_id = cid\<rparr>"

definition AddDocuments ::
  "Env \<Rightarrow> VectorStore \<Rightarrow> Document list \<Rightarrow> string \<Rightarrow> VectorStore \<times> string list \<times> error option" where
  "AddDocuments env v docs collection =
     (case getCollectionUUID env v collection of
        Inl err \<Rightarrow> (v, [], Some err)
      | Inr cid \<Rightarrow>
          (case embedAll env docs of
             (calls, Inl sharedErr) \<Rightarrow> (v\<lparr>embedCalls := embedCalls v @ calls\<rparr>, [], Some sharedErr)
           | (calls, Inr vecs) \<Rightarrow>
               (case dbErr env ''pgvector.SendBatch'' of
                  Some err \<Rightarrow> (v\<lparr>embedCalls := embedCalls v @ calls\<rparr>, map ID docs, Some err)
                | None \<Rightarrow>
                    (v\<lparr>rows := rows v @ map (insertRow cid) (zip docs vecs),
                       embedCalls := embedCalls v @ calls\<rparr>,
                     map ID docs, None))))"

section \<open>Datastore.Ingest (src/unnamed/part_003)\<close>

definition warn :: "string \<Rightarrow> Datastore \<Rightarrow> Datastore" where
  "warn msg s = s\<lparr>warnings := warnings s @ [msg]\<rparr>"

text \<open>Lines 54-69: a dataset without an embedding configuration gets the configured one.\<close>

definition bindEmbeddingConfig ::
  "Env \<Rightarrow> Datastore \<Rightarrow> string \<Rightarrow> Dataset \<Rightarrow> Datastore \<times> (error + Dataset)" where
  "bindEmbeddingConfig env s datasetID ds =
     (if EmbeddingsProviderConfig ds = None
      then (case AsEmbeddingModelProviderConfig env (EmbeddingModelProvider s) of
              Inl err \<Rightarrow> (s, Inl (Wrapped ''failed to get embedding model provider config'' err))
            | Inr ncfg \<Rightarrow>
                (case UpdateDataset env s
                        \<lparr>Dataset_ID = datasetID, EmbeddingsProviderConfig = Some ncfg\<rparr> of
                   (s', Inl err) \<Rightarrow> (s', Inl (Wrapped ''failed to update dataset'' err))
                 | (s', Inr ds') \<Rightarrow> (s', Inr ds')))
      else (s, Inr ds))"

text \<open>
  Lines 70-95: the comparison of the configured provider with the one bound to the
  dataset. The two environment variables are read through \<open>Getenv\<close>.
\<close>

definition checkEmbeddingConfig ::
  "Env \<Rightarrow> Datastore \<Rightarrow> string \<Rightarrow> Dataset \<Rightarrow> Datastore \<times> error option" where
  "checkEmbeddingConfig env s datasetID ds =
     (case EmbeddingsProviderConfig ds of
        None \<Rightarrow> (s, None)
      | Some cfg \<Rightarrow>
          (let s1 = (if Provider_Name (EmbeddingModelProvider s) \<noteq> Type cfg
                     then warn ''Embeddings provider mismatch'' s else s)
           in case ProviderFromConfig env cfg of
                Inl err \<Rightarrow> (s1, Some (Wrapped ''failed to get embeddings model provider'' err))
              | Inr dsEmbeddingProvider \<Rightarrow>
                  (let s2 =
                     (if EmbeddingModelName (EmbeddingModelProvider s1)
                           \<noteq> EmbeddingModelName dsEmbeddingProvider
                      then (let s1' = warn ''Embeddings model mismatch'' s1
                            in if Getenv env ''KNOW_PREFER_NEW_EMBEDDING_MODEL'' = []
                               then s1'\<lparr>EmbeddingModelProvider :=
                                          UseEmbeddingModel (EmbeddingModelName dsEmbeddingProvider)
                                            (EmbeddingModelProvider s1')\<rparr>
                               else s1')
                      else s1)
                   in if Getenv env ''KNOW_STRICT_EMBEDDING_CONFIG_CHECK'' \<noteq> []
                      then (case CompareRequiredFields env (EmbeddingModelProvider s2)
                                   dsEmbeddingProvider of
                              Some err \<Rightarrow>
                                (s2, Some (Wrapped ''mismatching embedding provider configs'' err))
                            | None \<Rightarrow> (s2, None))
                      else (s2, None))))"

text \<open>Lines 97-107: the deduplication function of this call.\<close>

definition selectIsDuplicate :: "Env \<Rightarrow> IngestOpts \<Rightarrow> error + IsDuplicateFunc" where
  "selectIsDuplicate env opts =
     (if IsDuplicateFuncName opts \<noteq> []
      then (case IsDuplicateFuncs env (IsDuplicateFuncName opts) of
              None \<Rightarrow> Inl (UnknownDeduplicationFunction (IsDuplicateFuncName opts))
            | Some df \<Rightarrow> Inr df)
      else (case IsDuplicateFunc opts of
              Some df \<Rightarrow> Inr df
            | None \<Rightarrow> Inr (DedupeUpsert env)))"

text \<open>Lines 146-152: the first configured flow that supports the filetype, else an empty flow.\<close>

definition selectIngestionFlow :: "IngestOpts \<Rightarrow> string \<Rightarrow> IngestionFlow" where
  "selectIngestionFlow opts filetype =
     (case find (\<lambda>flow. SupportsFiletype flow filetype) (IngestionFlows opts) of
        Some flow \<Rightarrow> flow
      | None \<Rightarrow> emptyIngestionFlow)"

text \<open>
  Lines 164-169: the mandatory metadata, and the loop that adds the caller's extra
  metadata under the keys not yet present. \<open>ExtraMetadata\<close> is a Go map; the list is it
  in the order the loop visits it.
\<close>

definition mandatoryMetadata :: "string \<Rightarrow> FileMetadata \<Rightarrow> string \<Rightarrow> metadata" where
  "mandatoryMetadata filename fm model =
     [''filename'' \<mapsto> AnyString filename, ''absPath'' \<mapsto> AnyString (AbsolutePath fm),
      ''fileSize'' \<mapsto> AnyInt (Size fm), ''embeddingModel'' \<mapsto> AnyString model]"

fun addExtraMetadata :: "metadata \<Rightarrow> (string \<times> any) list \<Rightarrow> metadata" where
  "addExtraMetadata m [] = m"
| "addExtraMetadata m ((k, v) # rest) =
     addExtraMetadata (if m k = None then m(k \<mapsto> v) else m) rest"

text \<open>
  Lines 220-253: the loop over the existing documents with the same content. It yields
  the embedding assigned at line 224 or 246 before the \<open>break\<close>, or nothing when the loop
  runs to its end.
\<close>

fun reuseFrom :: "Env \<Rightarrow> Datastore \<Rightarrow> Document list \<Rightarrow> float32 list option" where
  "reuseFrom env s [] = None"
| "reuseFrom env s (existingDoc # rest) =
     (case Metadata existingDoc ''embeddingModel'' of
        Some emb \<Rightarrow>
          (if emb = AnyString (EmbeddingModelName (EmbeddingModelProvider s))
           then Some (Embedding existingDoc)
           else reuseFrom env s rest)
      | None \<Rightarrow>
          (case GetDatasetForDocument env s (ID existingDoc) of
             Inl err \<Rightarrow> reuseFrom env s rest
           | Inr existingDocumentDataset \<Rightarrow>
               (case EmbeddingsProviderConfig existingDocumentDataset of
                  None \<Rightarrow> reuseFrom env s rest
                | Some cfg \<Rightarrow>
                    (case ProviderFromConfig env cfg of
                       Inl err \<Rightarrow> reuseFrom env s rest
                     | Inr existingEmbeddingProvider \<Rightarrow>
                         (if EmbeddingModelName existingEmbeddingProvider
                               = EmbeddingModelName (EmbeddingModelProvider s)
                          then Some (Embedding existingDoc)
                          else reuseFrom env s rest)))))"

text \<open>Lines 205-254: one round of the loop over the new documents.\<close>

definition reuseEmbedding :: "Env \<Rightarrow> Datastore \<Rightarrow> Document \<Rightarrow> Document" where
  "reuseEmbedding env s doc =
     (case GetDocuments env (Vectorstore s) [] []
             [\<lparr>Operator = WhereDocumentOperatorEquals, Value = Content doc\<rparr>] of
        Inl err \<Rightarrow> doc
      | Inr existingDocs \<Rightarrow>
          (if length existingDocs = 0 then doc
           else (case reuseFrom env s existingDocs of
                   Some emb \<Rightarrow> doc\<lparr>Embedding := emb\<rparr>
                 | None \<Rightarrow> doc)))"

text \<open>
  Lines 184-305: replace the rows of the path, reuse embeddings when asked to, add the
  documents to the vector store and record the file in the index.
\<close>

definition indexDocuments :: "string \<Rightarrow> string \<Rightarrow> string list \<Rightarrow> IndexDocument list" where
  "indexDocuments fileID datasetID docIDs =
     map (\<lambda>(idx, docID). \<lparr>Doc_ID = docID, FileID = fileID, Doc_Dataset = datasetID,
                           Index = int idx\<rparr>)
       (enumerate 0 docIDs)"

definition storeDocuments ::
  "Env \<Rightarrow> Datastore \<Rightarrow> string \<Rightarrow> string \<Rightarrow> IngestOpts \<Rightarrow> string \<Rightarrow> FileMetadata \<Rightarrow> Document list
     \<Rightarrow> Datastore \<times> (error + string list)" where
  "storeDocuments env s datasetID filename opts fileID fm docs0 =
     (let docs = SortAndEnsureDocIndex docs0 in
      case RemoveDocument env (Vectorstore s) [] datasetID [(''absPath'', AbsolutePath fm)] [] of
        (v1, Some err) \<Rightarrow> (s\<lparr>Vectorstore := v1\<rparr>, Inl err)
      | (v1, None) \<Rightarrow>
          (let s1 = s\<lparr>Vectorstore := v1\<rparr>;
               docs' = (if ReuseEmbeddings opts then map (reuseEmbedding env s1) docs else docs)
           in case AddDocuments env (Vectorstore s1) docs' datasetID of
                (v2, docIDs, Some err) \<Rightarrow>
                  (s1\<lparr>Vectorstore := v2\<rparr>,
                   Inl (Wrapped (''failed to add documents from file '' @ AbsolutePath fm) err))
              | (v2, docIDs, None) \<Rightarrow>
                  (let dbFile =
                         \<lparr>File_Name = filename, AbsolutePath = AbsolutePath fm, Size = Size fm,
                          ModifiedAt = ModifiedAt fm, File_ID = fileID, File_Dataset = datasetID,
                          Documents = indexDocuments fileID datasetID docIDs\<rparr>
                   in case CreateFile env (s1\<lparr>Vectorstore := v2\<rparr>) dbFile of
                        (s3, Some err) \<Rightarrow> (s3, Inl (Wrapped ''failed to create file'' err))
                      | (s3, None) \<Rightarrow> (s3, Inr docIDs))))"

text \<open>
  \<open>Ingest\<close> returns early at many places. The model cuts the function at two points
  and gives each part a result that is either \<open>Inl\<close>, what the part makes Ingest
  return, or \<open>Inr\<close>, the values the next part goes on with.

  Lines 35-128, up to the duplicate check: the filename, the dataset, its embedding
  configuration, the deduplication function, the file UUID and the filetype.
\<close>

definition beforeDuplicateCheck ::
  "Env \<Rightarrow> Datastore \<Rightarrow> string \<Rightarrow> string \<Rightarrow> string \<Rightarrow> IngestOpts
     \<Rightarrow> (Datastore \<times> (error + string list)) + (Datastore \<times> IsDuplicateFunc \<times> string \<times> string)" where
  "beforeDuplicateCheck env s datasetID filename content opts =
     (if filename = [] then Inl (s, Inl FilenameRequired)
      else (case GetDataset env s datasetID of
              Inl err \<Rightarrow> Inl (s, Inl err)
            | Inr None \<Rightarrow> Inl (s, Inl (DatasetNotFound datasetID))
            | Inr (Some ds) \<Rightarrow>
                (case bindEmbeddingConfig env s datasetID ds of
                   (s1, Inl err) \<Rightarrow> Inl (s1, Inl err)
                 | (s1, Inr ds1) \<Rightarrow>
                     (case checkEmbeddingConfig env s1 datasetID ds1 of
                        (s2, Some err) \<Rightarrow> Inl (s2, Inl err)
                      | (s2, None) \<Rightarrow>
                          (case selectIsDuplicate env opts of
                             Inl err \<Rightarrow> Inl (s2, Inl err)
                           | Inr isDuplicate \<Rightarrow>
                               (case NewUUID env of
                                  Inl err \<Rightarrow> Inl (s2, Inl err)
                                | Inr fileID \<Rightarrow>
                                    (case GetFiletype env filename content of
                                       Inl err \<Rightarrow> Inl (s2, Inl err)
                                     | Inr filetype \<Rightarrow>
                                         Inr (s2, isDuplicate, fileID, filetype))))))))"

text \<open>
  Lines 143-182: the ingestion flow of the filetype is resolved and run; the datastore is
  only read (the provider's model name, line 164). A nil \<open>opts.FileMetadata\<close> is
  dereferenced at line 160 or 164: the panic is the error \<open>NilPointerPanic\<close>. No
  chunks (line 179) make Ingest return \<open>(nil, nil)\<close>.
\<close>

definition withMandatoryMetadata ::
  "Datastore \<Rightarrow> string \<Rightarrow> FileMetadata \<Rightarrow> IngestOpts \<Rightarrow> IngestionFlow \<Rightarrow> IngestionFlow" where
  "withMandatoryMetadata s filename fm opts ingestionFlow =
     (let metadata =
            addExtraMetadata
              (mandatoryMetadata filename fm (EmbeddingModelName (EmbeddingModelProvider s)))
              (ExtraMetadata opts)
      in ingestionFlow\<lparr>Transformations :=
           Transformations ingestionFlow @ [ExtraMetadata_Transform metadata]\<rparr>)"

definition resolveAndRun ::
  "Env \<Rightarrow> Datastore \<Rightarrow> string \<Rightarrow> string \<Rightarrow> IngestOpts \<Rightarrow> string
     \<Rightarrow> (error + string list) + (FileMetadata \<times> Document list)" where
  "resolveAndRun env s filename content opts filetype =
     (case FillDefaults env (selectIngestionFlow opts filetype) filetype of
        Inl err \<Rightarrow> Inl (Inl err)
      | Inr ingestionFlow \<Rightarrow>
          (case FileMetadata opts of
             None \<Rightarrow> Inl (Inl NilPointerPanic)
           | Some fm \<Rightarrow>
               (if Flow_Load ingestionFlow = None
                then Inl (Inl (UnsupportedFileTypeError filetype (AbsolutePath fm)))
                else (case Run (withMandatoryMetadata s filename fm opts ingestionFlow)
                             content filename of
                        Inl err \<Rightarrow>
                          Inl (Inl (Wrapped (''ingestion flow failed for file '' @ filename) err))
                      | Inr docs \<Rightarrow>
                          (if length docs = 0 then Inl (Inr []) else Inr (fm, docs))))))"

text \<open>
  \<open>Ingest\<close> (lines 35-305): the three parts, with the duplicate check of lines 130-141
  between the first two. The result is the datastore after the call and what Go returns:
  an error, or the document IDs (the nil slice is the empty list).
\<close>

definition Ingest ::
  "Env \<Rightarrow> Datastore \<Rightarrow> string \<Rightarrow> string \<Rightarrow> string \<Rightarrow> IngestOpts
     \<Rightarrow> Datastore \<times> (error + string list)" where
  "Ingest env s datasetID filename content opts =
     (case beforeDuplicateCheck env s datasetID filename content opts of
        Inl early \<Rightarrow> early
      | Inr (s2, isDuplicate, fileID, filetype) \<Rightarrow>
          (case isDuplicate s2 datasetID (IngestOptsData.truncate opts) of
             (s3, Inl err) \<Rightarrow> (s3, Inl (Wrapped ''failed to check for duplicates'' err))
           | (s3, Inr isDupe) \<Rightarrow>
               (if isDupe then (s3, Inr [])
                else (case resolveAndRun env s3 filename content opts filetype of
                        Inl early \<Rightarrow> (s3, early)
                      | Inr (fm, docs) \<Rightarrow>
                          storeDocuments env s3 datasetID filename opts fileID fm docs))))"

section \<open>The client (src/knowledge/pkg/cmd/get_dataset.go, second part; pkg/cmd/ingest.go)\<close>

text \<open>
  \<open>SharedIngestionOpts\<close> and \<open>IngestPathsOpts\<close> (pkg/client, declarations not under
  src): the fields the code under src reads; \<open>IngestPathsOpts\<close> embeds the shared
  options. The fields that only the directory walk reads (ignore lists, concurrency,
  recursion, pruning) are left out.
\<close>

record SharedIngestionOpts =
  Shared_IsDuplicateFuncName :: string
  Shared_Metadata :: "(string \<times> string) list"
  Shared_IngestionFlows :: "IngestionFlow list"
  Shared_ReuseEmbeddings :: bool
  Shared_ReuseFiles :: bool

record IngestPathsOpts = SharedIngestionOpts +
  ErrOnUnsupportedFile :: bool
  ExitOnFailedFile :: bool
  NoCreateDataset :: bool

record FileInfo =
  Info_Name :: string
  WorkspaceID :: string
  Info_Size :: int
  ModTime :: int
  IsDir :: bool

text \<open>
  What the client gets from outside the code under src, on top of \<open>Env\<close>: the workspace
  and the file system, and two functions of pkg/client that are not under src,
  \<open>getOrCreateDataset\<close> and the directory walk \<open>ingestPaths\<close>, which is handed the
  function that ingests one file.
\<close>

type_synonym ingestFileFunc =
  "Datastore \<Rightarrow> string \<Rightarrow> (string \<times> any) list \<Rightarrow> Datastore \<times> error option"

record ClientEnv = Env +
  getOrCreateDataset :: "Datastore \<Rightarrow> string \<Rightarrow> bool \<Rightarrow> Datastore \<times> (error + Dataset)"
  StatFileInWorkspace :: "string \<Rightarrow> error + FileInfo"
  ReadFileInWorkspace :: "string \<Rightarrow> error + string"
  Stat :: "string \<Rightarrow> error + FileInfo"
  Abs :: "string \<Rightarrow> error + string"
  OsReadFile :: "string \<Rightarrow> error + string"
  ingestPaths ::
    "Datastore \<Rightarrow> IngestPathsOpts \<Rightarrow> string \<Rightarrow> ingestFileFunc \<Rightarrow> string list
       \<Rightarrow> Datastore \<times> int \<times> int \<times> error option"

text \<open>\<open>StandaloneClient.Ingest\<close> (lines 129-135) logs a failure and returns what
  \<open>Datastore.Ingest\<close> returns.\<close>

definition Client_Ingest ::
  "ClientEnv \<Rightarrow> Datastore \<Rightarrow> string \<Rightarrow> string \<Rightarrow> string \<Rightarrow> IngestOpts
     \<Rightarrow> Datastore \<times> (error + string list)" where
  "Client_Ingest cenv s datasetID name bytes opts =
     Ingest (Env.truncate cenv) s datasetID name bytes opts"

text \<open>\<open>IngestFromWorkspace\<close> (lines 137-176). It returns the error of the ingest alone.\<close>

definition IngestFromWorkspace ::
  "ClientEnv \<Rightarrow> Datastore \<Rightarrow> string \<Rightarrow> SharedIngestionOpts \<Rightarrow> string \<Rightarrow> Datastore \<times> error option" where
  "IngestFromWorkspace cenv s datasetID opts file0 =
     (case getOrCreateDataset cenv s datasetID True of
        (s1, Inl err) \<Rightarrow> (s1, Some err)
      | (s1, Inr ds) \<Rightarrow>
          (let file = trimPrefix file0 ''ws://'';
               meta = map (\<lambda>(k, v). (k, AnyString v)) (Shared_Metadata opts)
           in case StatFileInWorkspace cenv file of
                Inl err \<Rightarrow> (s1, Some (Wrapped (''failed to stat file '' @ file) err))
              | Inr finfo \<Rightarrow>
                  (case ReadFileInWorkspace cenv file of
                     Inl err \<Rightarrow> (s1, Some (Wrapped (''failed to read file '' @ file) err))
                   | Inr fileContent \<Rightarrow>
                       (let iopts =
                              \<lparr>FileMetadata = Some
                                  \<lparr>File_Name = Info_Name finfo,
                                   AbsolutePath = ''ws://'' @ WorkspaceID finfo @ ''/'' @ file,
                                   Size = Info_Size finfo, ModifiedAt = ModTime finfo\<rparr>,
                               IsDuplicateFuncName = Shared_IsDuplicateFuncName opts,
                               IngestionFlows = Shared_IngestionFlows opts,
                               ExtraMetadata = meta,
                               ReuseEmbeddings = Shared_ReuseEmbeddings opts,
                               IsDuplicateFunc = None\<rparr>
                        in case Client_Ingest cenv s1 datasetID (Info_Name finfo) fileContent iopts of
                             (s2, Inl err) \<Rightarrow> (s2, Some err)
                           | (s2, Inr ids) \<Rightarrow> (s2, None)))))"

text \<open>
  \<open>IngestPaths\<close> (lines 178-235). \<open>ingestFile\<close> is the closure of lines 194-232.
  \<open>filepath.Base\<close> is Go's; for a path without a trailing slash it is the part after the
  last slash. An empty \<open>paths\<close> makes \<open>paths[0]\<close> panic.
\<close>

definition Base :: "string \<Rightarrow> string" where
  "Base path = rev (takeWhile (\<lambda>c. c \<noteq> CHR ''/'') (rev path))"

definition ingestFile :: "ClientEnv \<Rightarrow> string \<Rightarrow> IngestPathsOpts \<Rightarrow> ingestFileFunc" where
  "ingestFile cenv datasetID opts s path extraMetadata =
     (case Stat cenv path of
        Inl err \<Rightarrow> (s, Some (Wrapped (''failed to stat file '' @ path) err))
      | Inr finfo \<Rightarrow>
          (case Abs cenv path of
             Inl err \<Rightarrow> (s, Some (Wrapped (''failed to get absolute path for '' @ path) err))
           | Inr abspath \<Rightarrow>
               (case OsReadFile cenv path of
                  Inl err \<Rightarrow> (s, Some (Wrapped (''failed to open file '' @ path) err))
                | Inr fileBytes \<Rightarrow>
                    (let iopts =
                           \<lparr>FileMetadata = Some
                               \<lparr>File_Name = Base path, AbsolutePath = abspath,
                                Size = Info_Size finfo, ModifiedAt = ModTime finfo\<rparr>,
                            IsDuplicateFuncName = Shared_IsDuplicateFuncName opts,
                            IngestionFlows = Shared_IngestionFlows opts,
                            ExtraMetadata = extraMetadata,
                            ReuseEmbeddings = Shared_ReuseEmbeddings opts,
                            IsDuplicateFunc = None\<rparr>
                     in case Client_Ingest cenv s datasetID (Base path) fileBytes iopts of
                          (s', Inl err) \<Rightarrow> (s', Some err)
                        | (s', Inr ids) \<Rightarrow> (s', None)))))"

definition IngestPaths ::
  "ClientEnv \<Rightarrow> Datastore \<Rightarrow> string \<Rightarrow> IngestPathsOpts \<Rightarrow> string list
     \<Rightarrow> Datastore \<times> int \<times> int \<times> error option" where
  "IngestPaths cenv s datasetID opts paths =
     (case paths of
        [] \<Rightarrow> (s, 0, 0, Some IndexOutOfRangePanic)
      | path0 # others \<Rightarrow>
          (if hasPrefix path0 ''ws://''
           then (if length paths > 1 then (s, 0, 0, Some MultipleWorkspacePaths)
                 else (case IngestFromWorkspace cenv s datasetID
                              (SharedIngestionOpts.truncate opts) path0 of
                         (s', err) \<Rightarrow> (s', 1, 0, err)))
           else (case getOrCreateDataset cenv s datasetID (\<not> NoCreateDataset opts) of
                   (s1, Inl err) \<Rightarrow> (s1, 0, 0, Some err)
                 | (s1, Inr ds) \<Rightarrow>
                     ingestPaths cenv s1 opts datasetID (ingestFile cenv datasetID opts) paths)))"

text \<open>
  \<open>ClientIngest.run\<close>, lines 80-91 of ingest.go: the value of \<open>ErrOnUnsupportedFile\<close>
  with which the ingest options are built, from the flag the user gave. \<open>path.Ext\<close> is
  Go's: the suffix of the last path element from its last dot on.
\<close>

fun extScan :: "string \<Rightarrow> string \<Rightarrow> string" where
  "extScan [] acc = []"
| "extScan (c # rest) acc =
     (if c = CHR ''/'' then [] else if c = CHR ''.'' then c # acc else extScan rest (c # acc))"

definition Ext :: "string \<Rightarrow> string" where
  "Ext path = extScan (rev path) []"

definition run_ErrOnUnsupportedFile :: "ClientEnv \<Rightarrow> bool \<Rightarrow> string \<Rightarrow> error + bool" where
  "run_ErrOnUnsupportedFile cenv flag filePath =
     (if \<not> hasPrefix filePath ''ws://''
      then (case Stat cenv filePath of
              Inl err \<Rightarrow> Inl err
            | Inr finfo \<Rightarrow>
                Inr (if \<not> IsDir finfo \<and> Ext filePath \<noteq> ''.zip'' then True else flag))
      else Inr True)"

section \<open>Notions used to state the results\<close>






section \<open>Concrete inputs\<close>

text \<open>A retrieved document with a given score, and the response of the spec's example.\<close>

definition scoredDoc :: "float32 \<Rightarrow> Document" where
  "scoredDoc sc =
     \<lparr>ID = [], Content = [], Metadata = Map.empty, SimilarityScore = sc, Embedding = []\<rparr>"

definition exampleResponse :: RetrievalResponse where
  "exampleResponse =
     \<lparr>Responses = [\<lparr>ResultDocuments = map scoredDoc [0.9, 0.7, 0.5, 0.3, 0.1]\<rparr>,
                   \<lparr>ResultDocuments = map scoredDoc [0.4, 0.2]\<rparr>]\<rparr>"

text \<open>A flow configuration that passes validation, one with two default flows, and a
  loader environment that decodes every file to the first.\<close>

definition textIngestion :: IngestionFlowConfig where
  "textIngestion =
     \<lparr>Filetypes = [''.txt''],
      Converter = \<lparr>Name = [], Options = [], TargetFormat = [], MustTry = False\<rparr>,
      DocumentLoader = \<lparr>Name = ''plaintext'', Options = []\<rparr>,
      TextSplitter = \<lparr>Name = ''text'', Options = []\<rparr>,
      Transformers = []\<rparr>"

definition goodConfig :: FlowConfig where
  "goodConfig =
     \<lparr>Flows = [(''main'', \<lparr>Default = True, Globals = [], Ingestion = [textIngestion],
                            Retrieval = None\<rparr>)],
      Datasets = []\<rparr>"

definition twoDefaultsConfig :: FlowConfig where
  "twoDefaultsConfig =
     \<lparr>Flows = [(''a'', \<lparr>Default = True, Globals = [], Ingestion = [textIngestion],
                         Retrieval = None\<rparr>),
               (''b'', \<lparr>Default = True, Globals = [], Ingestion = [textIngestion],
                         Retrieval = None\<rparr>)],
      Datasets = []\<rparr>"

definition exampleLoadEnv :: LoadEnv where
  "exampleLoadEnv =
     \<lparr>ReadFile = (\<lambda>filename. Inr ''flows: ...''),
      GetBlueprint = (\<lambda>name. Inl (ExternalError ''blueprint not found'')),
      Decode = (\<lambda>content. Inr goodConfig)\<rparr>"

text \<open>
  A loader that makes one document of every character of the content, and the
  collaborators of a call in which nothing outside the code under src fails: no
  environment variable is set, text files are loaded by that loader, the registry of
  deduplication functions knows one that answers true, the default one answers false.
\<close>

definition charsLoader :: "string \<Rightarrow> error + Document list" where
  "charsLoader content =
     Inr (map (\<lambda>c. \<lparr>ID = ''doc-'' @ [c], Content = [c], Metadata = Map.empty,
                      SimilarityScore = 0, Embedding = []\<rparr>) content)"

definition exampleEnv :: Env where
  "exampleEnv =
     \<lparr>Getenv = (\<lambda>name. []),
      dbErr = (\<lambda>operation. None),
      NewUUID = Inr ''file-1'',
      embeddingFunc = (\<lambda>text. Inr [real (length text), 1]),
      GetFiletype = (\<lambda>filename content. Inr (if Ext filename = ''.txt'' then ''txt'' else ''bin'')),
      IsDuplicateFuncs = [''always'' \<mapsto> (\<lambda>s datasetID opts. (s, Inr True))],
      DedupeUpsert = (\<lambda>s datasetID opts. (s, Inr False)),
      AsEmbeddingModelProviderConfig =
        (\<lambda>p. Inr \<lparr>Type = Provider_Name p,
                    Config = [(''model'', AnyString (EmbeddingModelName p))]\<rparr>),
      ProviderFromConfig =
        (\<lambda>cfg. case map_of (Config cfg) ''model'' of
                  Some (AnyString m) \<Rightarrow> Inr \<lparr>Provider_Name = Type cfg, EmbeddingModelName = m\<rparr>
                | _ \<Rightarrow> Inl (ExternalError ''no model'')),
      CompareRequiredFields =
        (\<lambda>p q. if EmbeddingModelName p = EmbeddingModelName q then None
                else Some (ExternalError ''model differs'')),
      FillDefaults =
        (\<lambda>flow filetype. Inr (if Flow_Load flow = None \<and> filetype = ''txt''
                               then flow\<lparr>Flow_Load := Some charsLoader\<rparr> else flow))\<rparr>"

text \<open>
  Datastores with one dataset \<open>ds\<close> (collection uuid \<open>c1\<close>): a fresh one without an
  embedding configuration, one bound to the configured model \<open>model-a\<close> that holds a
  row of an earlier version of /data/a.txt and, in another collection, a row with the
  content \<open>a\<close>, and one bound to \<open>model-old\<close> while \<open>model-new\<close> is configured.
\<close>

definition modelConfig :: "string \<Rightarrow> EmbeddingModelProviderConfig" where
  "modelConfig m = \<lparr>Type = ''openai'', Config = [(''model'', AnyString m)]\<rparr>"

definition freshDatastore :: Datastore where
  "freshDatastore =
     \<lparr>IndexDB = \<lparr>datasets = [''ds'' \<mapsto> \<lparr>Dataset_ID = ''ds'', EmbeddingsProviderConfig = None\<rparr>],
                 files = []\<rparr>,
      Vectorstore = \<lparr>collections = [(''ds'', ''c1'')], rows = [], embedCalls = []\<rparr>,
      EmbeddingModelProvider = \<lparr>Provider_Name = ''openai'', EmbeddingModelName = ''model-a''\<rparr>,
      warnings = []\<rparr>"

definition oldRow :: Row where
  "oldRow =
     \<lparr>uuid = ''doc-old'', document = ''stale'', embedding = [5, 1],
      cmetadata = [''absPath'' \<mapsto> AnyString ''/data/a.txt'',
                   ''embeddingModel'' \<mapsto> AnyString ''model-a''],
      collection_id = ''c1''\<rparr>"

definition otherRow :: Row where
  "otherRow =
     \<lparr>uuid = ''doc-other'', document = ''a'', embedding = [7, 7],
      cmetadata = [''absPath'' \<mapsto> AnyString ''/data/b.txt'',
                   ''embeddingModel'' \<mapsto> AnyString ''model-a''],
      collection_id = ''c2''\<rparr>"

definition boundDatastore :: Datastore where
  "boundDatastore =
     \<lparr>IndexDB = \<lparr>datasets = [''ds'' \<mapsto> \<lparr>Dataset_ID = ''ds'',
                                         EmbeddingsProviderConfig = Some (modelConfig ''model-a'')\<rparr>],
                 files = []\<rparr>,
      Vectorstore = \<lparr>collections = [(''ds'', ''c1''), (''other'', ''c2'')],
                     rows = [oldRow, otherRow], embedCalls = []\<rparr>,
      EmbeddingModelProvider = \<lparr>Provider_Name = ''openai'', EmbeddingModelName = ''model-a''\<rparr>,
      warnings = []\<rparr>"

definition driftDatastore :: Datastore where
  "driftDatastore =
     \<lparr>IndexDB = \<lparr>datasets = [''ds'' \<mapsto> \<lparr>Dataset_ID = ''ds'',
                                         EmbeddingsProviderConfig = Some (modelConfig ''model-old'')\<rparr>],
                 files = []\<rparr>,
      Vectorstore = \<lparr>collections = [(''ds'', ''c1'')], rows = [], embedCalls = []\<rparr>,
      EmbeddingModelProvider = \<lparr>Provider_Name = ''openai'', EmbeddingModelName = ''model-new''\<rparr>,
      warnings = []\<rparr>"

text \<open>Options of a call for /data/a.txt whose extra metadata tries to set \<open>absPath\<close>.\<close>

definition exampleOpts :: IngestOpts where
  "exampleOpts =
     \<lparr>FileMetadata = Some \<lparr>File_Name = ''a.txt'', AbsolutePath = ''/data/a.txt'', Size = 2,
                            ModifiedAt = 0\<rparr>,
      IsDuplicateFuncName = [],
      IngestionFlows = [],
      ExtraMetadata = [(''absPath'', AnyString ''/elsewhere''), (''author'', AnyString ''me'')],
      ReuseEmbeddings = True,
      IsDuplicateFunc = None\<rparr>"

text \<open>
  A datastore in which the dataset already holds a row of /data/a.txt with the content
  \<open>a\<close>, embedded under the configured model: the state before the same file is ingested
  again.
\<close>

definition sameFileRow :: Row where
  "sameFileRow =
     \<lparr>uuid = ''doc-a-old'', document = ''a'', embedding = [9, 9],
      cmetadata = [''absPath'' \<mapsto> AnyString ''/data/a.txt'',
                   ''embeddingModel'' \<mapsto> AnyString ''model-a''],
      collection_id = ''c1''\<rparr>"

definition reingestDatastore :: Datastore where
  "reingestDatastore =
     \<lparr>IndexDB = \<lparr>datasets = [''ds'' \<mapsto> \<lparr>Dataset_ID = ''ds'',
                                         EmbeddingsProviderConfig = Some (modelConfig ''model-a'')\<rparr>],
                 files = []\<rparr>,
      Vectorstore = \<lparr>collections = [(''ds'', ''c1'')], rows = [sameFileRow], embedCalls = []\<rparr>,
      EmbeddingModelProvider = \<lparr>Provider_Name = ''openai'', EmbeddingModelName = ''model-a''\<rparr>,
      warnings = []\<rparr>"

text \<open>
  A client whose workspace holds files of three bytes in the workspace \<open>w1\<close>, whose
  \<open>getOrCreateDataset\<close> finds the dataset or fails, and whose directory walk does
  nothing; the options of a directory-level caller that asks for unsupported files to be
  skipped.
\<close>

definition exampleClientEnv :: ClientEnv where
  "exampleClientEnv =
     \<lparr>Getenv = Getenv exampleEnv,
      dbErr = dbErr exampleEnv,
      NewUUID = NewUUID exampleEnv,
      embeddingFunc = embeddingFunc exampleEnv,
      GetFiletype = GetFiletype exampleEnv,
      IsDuplicateFuncs = IsDuplicateFuncs exampleEnv,
      DedupeUpsert = DedupeUpsert exampleEnv,
      AsEmbeddingModelProviderConfig = AsEmbeddingModelProviderConfig exampleEnv,
      ProviderFromConfig = ProviderFromConfig exampleEnv,
      CompareRequiredFields = CompareRequiredFields exampleEnv,
      FillDefaults = FillDefaults exampleEnv,
      getOrCreateDataset =
        (\<lambda>s datasetID create.
           case datasets (IndexDB s) datasetID of
             Some ds \<Rightarrow> (s, Inr ds)
           | None \<Rightarrow> (s, Inl (DatasetNotFound datasetID))),
      StatFileInWorkspace =
        (\<lambda>file. Inr \<lparr>Info_Name = file, WorkspaceID = ''w1'', Info_Size = 3, ModTime = 0,
                        IsDir = False\<rparr>),
      ReadFileInWorkspace = (\<lambda>file. Inr ''xyz''),
      Stat = (\<lambda>path. Inr \<lparr>Info_Name = Base path, WorkspaceID = [], Info_Size = 3, ModTime = 0,
                              IsDir = False\<rparr>),
      Abs = (\<lambda>path. Inr path),
      OsReadFile = (\<lambda>path. Inr ''xyz''),
      ingestPaths = (\<lambda>s opts datasetID ingestOne paths. (s, 0, 0, None))\<rparr>"

definition skippingPathsOpts :: IngestPathsOpts where
  "skippingPathsOpts =
     \<lparr>Shared_IsDuplicateFuncName = [], Shared_Metadata = [], Shared_IngestionFlows = [],
      Shared_ReuseEmbeddings = True, Shared_ReuseFiles = True,
      ErrOnUnsupportedFile = False, ExitOnFailedFile = False, NoCreateDataset = True\<rparr>"





section \<open>Results on the similarity postprocessor\<close>

lemma filterLoop_above:
  "\<forall>d\<in>set xs. atOrAbove s d \<Longrightarrow> filterLoop s acc (xs @ ys) = filterLoop s (acc @ xs) ys"
  by (induction xs arbitrary: acc) (auto simp: atOrAbove_def)

lemma filterLoop_below:
  "\<forall>d\<in>set xs. \<not> atOrAbove s d \<Longrightarrow>
   filterLoop s acc xs = acc @ take (nat (KeepMin s) - length acc) xs"
proof (induction xs arbitrary: acc)
  case Nil
  then show ?case by simp
next
  case (Cons d xs)
  show ?case
  proof (cases "int (length acc) < KeepMin s")
    case True
    then have "nat (KeepMin s) - length acc = Suc (nat (KeepMin s) - Suc (length acc))" by linarith
    with Cons True show ?thesis by (simp add: atOrAbove_def)
  next
    case False
    then have "nat (KeepMin s) - length acc = 0" by linarith
    with Cons False show ?thesis by (simp add: atOrAbove_def)
  qed
qed

lemma sortedDesc_split:
  "sortedDesc docs \<Longrightarrow>
   docs = filter (atOrAbove s) docs @ filter (\<lambda>doc. \<not> atOrAbove s doc) docs"
proof (induction docs)
  case Nil
  then show ?case by simp
next
  case (Cons d ds)
  then have sd: "sortedDesc ds" and le: "\<forall>x\<in>set ds. SimilarityScore x \<le> SimilarityScore d"
    by (auto simp: sortedDesc_def)
  show ?case
  proof (cases "atOrAbove s d")
    case True
    with Cons.IH[OF sd] show ?thesis by simp
  next
    case False
    with le have "\<forall>x\<in>set ds. \<not> atOrAbove s x" by (fastforce simp: atOrAbove_def)
    then have "filter (atOrAbove s) ds = []" "filter (\<lambda>doc. \<not> atOrAbove s doc) ds = ds"
      by (auto simp: filter_empty_conv filter_id_conv)
    with False show ?thesis by simp
  qed
qed

lemma filterLoop_sorted:
  assumes "sortedDesc docs"
  shows "filterLoop s [] docs = spec_kept s docs"
proof -
  let ?a = "filter (atOrAbove s) docs" and ?b = "filter (\<lambda>doc. \<not> atOrAbove s doc) docs"
  have "filterLoop s [] docs = filterLoop s [] (?a @ ?b)"
    using sortedDesc_split[OF assms, of s] by simp
  also have "\<dots> = filterLoop s ([] @ ?a) ?b"
    by (rule filterLoop_above) simp
  also have "\<dots> = ?a @ take (nat (KeepMin s) - length ?a) ?b"
    using filterLoop_below[of ?b s ?a] by simp
  finally show ?thesis by (simp add: spec_kept_def)
qed

lemma spec_kept_prefix:
  assumes "sortedDesc docs"
  shows "spec_kept s docs = take (max (length (filter (atOrAbove s) docs)) (nat (KeepMin s))) docs"
proof -
  let ?a = "filter (atOrAbove s) docs" and ?b = "filter (\<lambda>doc. \<not> atOrAbove s doc) docs"
  have d: "docs = ?a @ ?b" using sortedDesc_split[OF assms] .
  have "take (max (length ?a) (nat (KeepMin s))) (?a @ ?b) = ?a @ take (nat (KeepMin s) - length ?a) ?b"
    by (simp add: max_def)
  with d show ?thesis unfolding spec_kept_def by metis
qed

lemma five_scores:
  assumes "map SimilarityScore docs = [a, b, c, d, e]"
  obtains d1 d2 d3 d4 d5 where "docs = [d1, d2, d3, d4, d5]"
    "SimilarityScore d1 = a" "SimilarityScore d2 = b" "SimilarityScore d3 = c"
    "SimilarityScore d4 = d" "SimilarityScore d5 = e"
  using assms by (auto simp: map_eq_Cons_conv)

lemma example_KeepMin_3:
  assumes "map SimilarityScore docs = [0.9, 0.7, 0.5, 0.3, 0.1]"
  shows "map SimilarityScore (filterLoop \<lparr>Threshold = 0.6, KeepMin = 3\<rparr> [] docs) = [0.9, 0.7, 0.5]"
proof -
  from assms obtain d1 d2 d3 d4 d5 where "docs = [d1, d2, d3, d4, d5]"
    "SimilarityScore d1 = 0.9" "SimilarityScore d2 = 0.7" "SimilarityScore d3 = 0.5"
    "SimilarityScore d4 = 0.3" "SimilarityScore d5 = 0.1"
    by (rule five_scores)
  then show ?thesis by simp
qed

lemma example_KeepMin_1:
  assumes "map SimilarityScore docs = [0.9, 0.7, 0.5, 0.3, 0.1]"
  shows "map SimilarityScore (filterLoop \<lparr>Threshold = 0.6, KeepMin = 1\<rparr> [] docs) = [0.9, 0.7]"
proof -
  from assms obtain d1 d2 d3 d4 d5 where "docs = [d1, d2, d3, d4, d5]"
    "SimilarityScore d1 = 0.9" "SimilarityScore d2 = 0.7" "SimilarityScore d3 = 0.5"
    "SimilarityScore d4 = 0.3" "SimilarityScore d5 = 0.1"
    by (rule five_scores)
  then show ?thesis by simp
qed

text \<open>
  Claim C1. On a response whose result lists are each sorted by descending score,
  \<open>Transform\<close> changes nothing but the result lists, and replaces each list, on its own,
  by exactly the documents the spec names: every document at or above the threshold,
  followed by the first below-threshold documents until \<open>KeepMin\<close> documents are kept
  or the list is exhausted. That list is a prefix of the input, so nothing is reordered.
  For the scores 0.9, 0.7, 0.5, 0.3, 0.1 and threshold 0.6, \<open>KeepMin = 3\<close> keeps the
  scores 0.9, 0.7, 0.5 and \<open>KeepMin = 1\<close> keeps 0.9, 0.7.
\<close>

theorem Transform_keeps_threshold_and_KeepMin:
  assumes "list_all (\<lambda>resp. sortedDesc (ResultDocuments resp)) (Responses response)"
  shows "Transform s response =
           response\<lparr>Responses :=
             map (\<lambda>resp. resp\<lparr>ResultDocuments := spec_kept s (ResultDocuments resp)\<rparr>)
               (Responses response)\<rparr>
         \<and> list_all (\<lambda>resp. spec_kept s (ResultDocuments resp) =
               take (max (length (filter (atOrAbove s) (ResultDocuments resp))) (nat (KeepMin s)))
                 (ResultDocuments resp)) (Responses response)
         \<and> (\<forall>docs :: Document list. map SimilarityScore docs = [0.9, 0.7, 0.5, 0.3, 0.1] \<longrightarrow>
               map SimilarityScore (filterLoop \<lparr>Threshold = 0.6, KeepMin = 3\<rparr> [] docs)
                 = [0.9, 0.7, 0.5]
               \<and> map SimilarityScore (filterLoop \<lparr>Threshold = 0.6, KeepMin = 1\<rparr> [] docs)
                 = [0.9, 0.7])"
proof (intro conjI allI impI)
  have "map (\<lambda>resp. resp\<lparr>ResultDocuments := filterLoop s [] (ResultDocuments resp)\<rparr>)
          (Responses response)
        = map (\<lambda>resp. resp\<lparr>ResultDocuments := spec_kept s (ResultDocuments resp)\<rparr>)
          (Responses response)"
    using assms by (intro map_cong refl) (simp add: list_all_iff filterLoop_sorted)
  then show "Transform s response =
           response\<lparr>Responses :=
             map (\<lambda>resp. resp\<lparr>ResultDocuments := spec_kept s (ResultDocuments resp)\<rparr>)
               (Responses response)\<rparr>"
    by (simp add: Transform_def)
next
  show "list_all (\<lambda>resp. spec_kept s (ResultDocuments resp) =
               take (max (length (filter (atOrAbove s) (ResultDocuments resp))) (nat (KeepMin s)))
                 (ResultDocuments resp)) (Responses response)"
    using assms by (simp add: list_all_iff spec_kept_prefix)
next
  fix docs :: "Document list" assume "map SimilarityScore docs = [0.9, 0.7, 0.5, 0.3, 0.1]"
  then show "map SimilarityScore (filterLoop \<lparr>Threshold = 0.6, KeepMin = 3\<rparr> [] docs)
                 = [0.9, 0.7, 0.5]"
    by (rule example_KeepMin_3)
next
  fix docs :: "Document list" assume "map SimilarityScore docs = [0.9, 0.7, 0.5, 0.3, 0.1]"
  then show "map SimilarityScore (filterLoop \<lparr>Threshold = 0.6, KeepMin = 1\<rparr> [] docs)
                 = [0.9, 0.7]"
    by (rule example_KeepMin_1)
qed

theorem Transform_keeps_threshold_and_KeepMin_witness:
  "list_all (\<lambda>resp. sortedDesc (ResultDocuments resp)) (Responses exampleResponse)
   \<and> Transform \<lparr>Threshold = 0.6, KeepMin = 3\<rparr> exampleResponse =
       \<lparr>Responses = [\<lparr>ResultDocuments = map scoredDoc [0.9, 0.7, 0.5]\<rparr>,
                     \<lparr>ResultDocuments = map scoredDoc [0.4, 0.2]\<rparr>]\<rparr>
   \<and> map SimilarityScore
        (filterLoop \<lparr>Threshold = 0.6, KeepMin = 1\<rparr> [] (map scoredDoc [0.9, 0.7, 0.5, 0.3, 0.1]))
       = [0.9, 0.7]"
proof -
  have h: "list_all (\<lambda>resp. sortedDesc (ResultDocuments resp)) (Responses exampleResponse)"
    by (simp add: exampleResponse_def sortedDesc_def scoredDoc_def)
  have m: "map SimilarityScore (map scoredDoc [0.9, 0.7, 0.5, 0.3, 0.1]) = [0.9, 0.7, 0.5, 0.3, 0.1]"
    by (simp add: scoredDoc_def)
  note t = Transform_keeps_threshold_and_KeepMin[OF h, of "\<lparr>Threshold = 0.6, KeepMin = 3\<rparr>"]
  have "Transform \<lparr>Threshold = 0.6, KeepMin = 3\<rparr> exampleResponse =
       \<lparr>Responses = [\<lparr>ResultDocuments = map scoredDoc [0.9, 0.7, 0.5]\<rparr>,
                     \<lparr>ResultDocuments = map scoredDoc [0.4, 0.2]\<rparr>]\<rparr>"
    using t by (simp add: exampleResponse_def spec_kept_def atOrAbove_def scoredDoc_def)
  moreover have "map SimilarityScore
        (filterLoop \<lparr>Threshold = 0.6, KeepMin = 1\<rparr> [] (map scoredDoc [0.9, 0.7, 0.5, 0.3, 0.1]))
       = [0.9, 0.7]"
    using t[THEN conjunct2, THEN conjunct2, rule_format, OF m] by simp
  ultimately show ?thesis using h by simp
qed

section \<open>Results on the flow configuration\<close>

lemma validateIngestion_iff:
  "(validateIngestion name idx ings \<noteq> None) = (\<exists>ingestion \<in> set ings. ingestionBad ingestion)"
  by (induction ings arbitrary: idx) (auto simp: ingestionBad_def)

lemma validateFlows_step:
  "(validateFlows hasDefault ((name, flow) # rest) \<noteq> None) =
     ((Default flow \<and> hasDefault) \<or> flowBad flow
        \<or> validateFlows (hasDefault \<or> Default flow) rest \<noteq> None)"
proof (cases "validateIngestion name 0 (Ingestion flow)")
  case None
  then have "\<not> (\<exists>ingestion \<in> set (Ingestion flow). ingestionBad ingestion)"
    using validateIngestion_iff[of name 0 "Ingestion flow"] by simp
  with None show ?thesis by (auto simp add: flowBad_def)
next
  case (Some e)
  then have "\<exists>ingestion \<in> set (Ingestion flow). ingestionBad ingestion"
    using validateIngestion_iff[of name 0 "Ingestion flow"] by simp
  with Some show ?thesis by (auto simp add: flowBad_def)
qed

lemma validateFlows_iff:
  "(validateFlows hasDefault flows \<noteq> None) =
     ((if hasDefault then 0 else 1) < numDefault flows \<or> (\<exists>p \<in> set flows. flowBad (snd p)))"
proof (induction flows arbitrary: hasDefault)
  case Nil
  then show ?case by (simp add: numDefault_def)
next
  case (Cons p flows)
  obtain name flow where p: "p = (name, flow)" by (cases p)
  have nd: "numDefault (p # flows) = (if Default flow then Suc (numDefault flows) else numDefault flows)"
    by (simp add: numDefault_def p)
  show ?case
    unfolding p validateFlows_step Cons.IH nd[unfolded p]
    by (cases "Default flow"; cases hasDefault; simp; blast)
qed

lemma Validate_iff:
  "(Validate f \<noteq> None) =
     (moreThanOneDefault f \<or> someFlowEmpty f \<or> someIngestionWithoutFiletypes f
        \<or> someConverterWithoutTarget f)"
proof -
  have "(\<exists>p \<in> set (Flows f). flowBad (snd p)) =
        (someFlowEmpty f \<or> someIngestionWithoutFiletypes f \<or> someConverterWithoutTarget f)"
    unfolding someFlowEmpty_def someIngestionWithoutFiletypes_def someConverterWithoutTarget_def
      flowBad_def ingestionBad_def
    by (simp add: case_prod_beta) blast
  then show ?thesis
    unfolding Validate_def validateFlows_iff moreThanOneDefault_def numDefault_def by simp
qed

lemma FromBytes_validates:
  "FromBytes env content = (Some config, err) \<Longrightarrow> err = Validate config"
  by (auto simp: FromBytes_def split: sum.splits)

lemma Load_validates:
  "Load env reference = (Some config, err) \<Longrightarrow> err = Validate config"
  by (auto simp: Load_def FromFile_def FromBlueprint_def split: sum.splits if_splits
        dest: FromBytes_validates)

text \<open>
  Claim C10. \<open>Validate\<close> returns an error exactly when more than one flow is marked
  default, or some flow has neither ingestion nor retrieval, or some ingestion entry lists
  no filetypes, or some converter is named without a target format; this holds for every
  order in which the loop meets the flows. Every configuration that \<open>Load\<close> (through
  \<open>FromFile\<close>, \<open>FromBlueprint\<close> and \<open>FromBytes\<close>) hands back comes with the result
  of \<open>Validate\<close> on it as its error.
\<close>

theorem Validate_error_iff_violation:
  "(Validate f \<noteq> None) =
     (moreThanOneDefault f \<or> someFlowEmpty f \<or> someIngestionWithoutFiletypes f
        \<or> someConverterWithoutTarget f)
   \<and> (\<forall>env reference config err.
         Load env reference = (Some config, err) \<longrightarrow> err = Validate config)"
  using Validate_iff Load_validates by blast

theorem Validate_error_iff_violation_witness:
  "Load exampleLoadEnv ''flows.yaml'' = (Some goodConfig, None)
   \<and> Validate goodConfig = None
   \<and> moreThanOneDefault twoDefaultsConfig
   \<and> Validate twoDefaultsConfig \<noteq> None"
proof -
  have l: "Load exampleLoadEnv ''flows.yaml'' = (Some goodConfig, Validate goodConfig)"
    by (simp add: Load_def hasPrefix_def FromFile_def FromBytes_def exampleLoadEnv_def)
  have g: "\<not> (moreThanOneDefault goodConfig \<or> someFlowEmpty goodConfig
              \<or> someIngestionWithoutFiletypes goodConfig \<or> someConverterWithoutTarget goodConfig)"
    by (simp add: moreThanOneDefault_def someFlowEmpty_def someIngestionWithoutFiletypes_def
          someConverterWithoutTarget_def goodConfig_def textIngestion_def)
  have v: "Validate goodConfig = None"
    using Validate_error_iff_violation[of goodConfig] g by blast
  have m: "moreThanOneDefault twoDefaultsConfig"
    by (simp add: moreThanOneDefault_def twoDefaultsConfig_def)
  have b: "Validate twoDefaultsConfig \<noteq> None"
    using Validate_error_iff_violation[of twoDefaultsConfig] m by blast
  show ?thesis using l v m b by simp
qed


section \<open>Results on Datastore.Ingest\<close>

subsection \<open>The parts of a call\<close>

lemma bindEmbeddingConfig_frame:
  assumes "bindEmbeddingConfig env s datasetID ds = (s1, r)"
  shows "Vectorstore s1 = Vectorstore s \<and> files (IndexDB s1) = files (IndexDB s)
         \<and> EmbeddingModelProvider s1 = EmbeddingModelProvider s \<and> warnings s1 = warnings s"
  using assms
  by (auto simp: bindEmbeddingConfig_def UpdateDataset_def Let_def
           split: if_splits sum.splits option.splits prod.splits)


lemma checkEmbeddingConfig_frame:
  assumes "checkEmbeddingConfig env s datasetID ds = (s2, r)"
  shows "Vectorstore s2 = Vectorstore s \<and> IndexDB s2 = IndexDB s"
  using assms
  by (auto simp: checkEmbeddingConfig_def warn_def Let_def
           split: if_splits sum.splits option.splits)

lemma beforeDuplicateCheck_frame:
  assumes "beforeDuplicateCheck env s datasetID filename content opts = Inr (s2, isDuplicate, fileID, filetype)"
  shows "Vectorstore s2 = Vectorstore s \<and> files (IndexDB s2) = files (IndexDB s)
         \<and> selectIsDuplicate env opts = Inr isDuplicate \<and> NewUUID env = Inr fileID
         \<and> GetFiletype env filename content = Inr filetype \<and> filename \<noteq> []"
proof -
  from assms obtain ds s1 ds1 where
    b: "bindEmbeddingConfig env s datasetID ds = (s1, Inr ds1)" and
    c: "checkEmbeddingConfig env s1 datasetID ds1 = (s2, None)" and
    r: "selectIsDuplicate env opts = Inr isDuplicate" "NewUUID env = Inr fileID"
       "GetFiletype env filename content = Inr filetype" "filename \<noteq> []"
    by (auto simp: beforeDuplicateCheck_def split: if_splits sum.splits option.splits prod.splits)
  from bindEmbeddingConfig_frame[OF b] checkEmbeddingConfig_frame[OF c] r
  show ?thesis by simp
qed




lemma runTransformations_append:
  "runTransformations (ts @ [t]) docs =
     (case runTransformations ts docs of Inl err \<Rightarrow> Inl err | Inr docs' \<Rightarrow> t docs')"
  by (induction ts arbitrary: docs) (auto split: sum.splits)

lemma Run_withMandatoryMetadata:
  "Run (withMandatoryMetadata s filename fm opts flow) content filename =
     (case Run flow content filename of
        Inl err \<Rightarrow> Inl err
      | Inr pre \<Rightarrow>
          ExtraMetadata_Transform
            (addExtraMetadata
               (mandatoryMetadata filename fm (EmbeddingModelName (EmbeddingModelProvider s)))
               (ExtraMetadata opts)) pre)"
  by (simp add: Run_def withMandatoryMetadata_def runConverter_def runTransformations_append Let_def
        split: sum.splits option.splits)














lemma withMandatoryMetadata_provider:
  "EmbeddingModelProvider s = EmbeddingModelProvider s' \<Longrightarrow>
   withMandatoryMetadata s filename fm opts flow = withMandatoryMetadata s' filename fm opts flow"
  by (simp add: withMandatoryMetadata_def)


















subsection \<open>The concrete inputs, evaluated\<close>

lemma exampleEnv_simps:
  "Getenv exampleEnv name = []"
  "dbErr exampleEnv operation = None"
  "NewUUID exampleEnv = Inr ''file-1''"
  "embeddingFunc exampleEnv text = Inr [real (length text), 1]"
  "GetFiletype exampleEnv filename content = Inr (if Ext filename = ''.txt'' then ''txt'' else ''bin'')"
  "IsDuplicateFuncs exampleEnv = [''always'' \<mapsto> (\<lambda>s datasetID opts. (s, Inr True))]"
  "DedupeUpsert exampleEnv = (\<lambda>s datasetID opts. (s, Inr False))"
  "AsEmbeddingModelProviderConfig exampleEnv p =
     Inr \<lparr>Type = Provider_Name p, Config = [(''model'', AnyString (EmbeddingModelName p))]\<rparr>"
  "ProviderFromConfig exampleEnv (modelConfig m) = Inr \<lparr>Provider_Name = ''openai'', EmbeddingModelName = m\<rparr>"
  "ProviderFromConfig exampleEnv \<lparr>Type = t, Config = [(''model'', AnyString m)]\<rparr> = Inr \<lparr>Provider_Name = t, EmbeddingModelName = m\<rparr>"
  "CompareRequiredFields exampleEnv p q =
     (if EmbeddingModelName p = EmbeddingModelName q then None else Some (ExternalError ''model differs''))"
  "FillDefaults exampleEnv flow filetype =
     Inr (if Flow_Load flow = None \<and> filetype = ''txt'' then flow\<lparr>Flow_Load := Some charsLoader\<rparr> else flow)"
  by (simp_all add: exampleEnv_def modelConfig_def)

lemma truncate_exampleClientEnv: "Env.truncate exampleClientEnv = exampleEnv"
  by (simp add: Env.truncate_def exampleClientEnv_def exampleEnv_def)

lemma exampleClientEnv_simps:
  "getOrCreateDataset exampleClientEnv s datasetID create =
     (case datasets (IndexDB s) datasetID of
        Some ds \<Rightarrow> (s, Inr ds)
      | None \<Rightarrow> (s, Inl (DatasetNotFound datasetID)))"
  "StatFileInWorkspace exampleClientEnv file =
     Inr \<lparr>Info_Name = file, WorkspaceID = ''w1'', Info_Size = 3, ModTime = 0, IsDir = False\<rparr>"
  "ReadFileInWorkspace exampleClientEnv file = Inr ''xyz''"
  by (simp_all add: exampleClientEnv_def)

lemma modelConfig_Type: "Type (modelConfig m) = ''openai''"
  by (simp add: modelConfig_def)

lemmas ex_defs = modelConfig_Type exampleEnv_simps freshDatastore_def boundDatastore_def driftDatastore_def exampleOpts_def
  charsLoader_def oldRow_def otherRow_def sameFileRow_def reingestDatastore_def

lemmas ingest_defs = Ingest_def beforeDuplicateCheck_def resolveAndRun_def storeDocuments_def
  GetDataset_def bindEmbeddingConfig_def checkEmbeddingConfig_def UpdateDataset_def selectIsDuplicate_def
  selectIngestionFlow_def withMandatoryMetadata_def Run_def runConverter_def ExtraMetadata_Transform_def
  SortAndEnsureDocIndex_def RemoveDocument_def getCollectionUUID_def AddDocuments_def
  reuseEmbedding_def GetDocuments_def CreateFile_def indexDocuments_def emptyIngestionFlow_def
  IngestOptsData.truncate_def buildWhereClause_def metadataMatches_def whereDocumentMatches_def
  jsonText_def insertRow_def rowDocument_def mandatoryMetadata_def warn_def UseEmbeddingModel_def
  Ext_def Let_def



subsection \<open>The claims about Ingest\<close>

text \<open>
  Claim C8, as amended. For every call of \<open>Ingest\<close> with a non-empty filename and a
  dataset ID for which the dataset lookup reports no dataset, the call returns no
  document IDs and fails with the dataset-not-found error, and the datastore is left as
  it was: the dataset is not created. (A call with an empty filename fails with
  "filename is required" before the dataset is looked up, whatever the dataset ID.)
\<close>

theorem Ingest_missing_dataset:
  assumes "filename \<noteq> []" and "GetDataset env s datasetID = Inr None"
  shows "Ingest env s datasetID filename content opts = (s, Inl (DatasetNotFound datasetID))"
  using assms by (simp add: Ingest_def beforeDuplicateCheck_def)

theorem Ingest_missing_dataset_witness:
  "''a.txt'' \<noteq> [] \<and> GetDataset exampleEnv boundDatastore ''missing'' = Inr None
   \<and> Ingest exampleEnv boundDatastore ''missing'' ''a.txt'' ''ab'' exampleOpts
       = (boundDatastore, Inl (DatasetNotFound ''missing''))"
proof -
  have n: "''a.txt'' \<noteq> []" by simp
  have g: "GetDataset exampleEnv boundDatastore ''missing'' = Inr None"
    by (simp add: GetDataset_def exampleEnv_simps boundDatastore_def)
  from Ingest_missing_dataset[OF n g, of "''ab''" exampleOpts] n g show ?thesis by simp
qed

theorem Ingest_missing_dataset_counterexample:
  "GetDataset exampleEnv boundDatastore ''missing'' = Inr None
   \<and> Ingest exampleEnv boundDatastore ''missing'' [] ''ab'' exampleOpts
       = (boundDatastore, Inl FilenameRequired)
   \<and> FilenameRequired \<noteq> DatasetNotFound ''missing''"
  by (simp add: GetDataset_def exampleEnv_simps boundDatastore_def Ingest_def
        beforeDuplicateCheck_def)



text \<open>
  Claim C3, as amended. If a call reaches the duplicate check (lines 35-128 did not
  return) and the selected deduplication function answers true, then Ingest returns no
  document IDs and no error and does nothing after the function has returned: the
  datastore is the one the function handed back. Up to the check Ingest has changed
  neither the vector store nor the files recorded in the index, so with a function that
  does not write both are unchanged and the index file count stays the same. (The
  dataset's embedding configuration may have been bound before the check: the index as a
  whole is not always unmodified.)
\<close>

theorem Ingest_duplicate_returns_nil:
  assumes "beforeDuplicateCheck env s datasetID filename content opts
             = Inr (s2, isDuplicate, fileID, filetype)"
    and "isDuplicate s2 datasetID (IngestOptsData.truncate opts) = (s3, Inr True)"
  shows "Ingest env s datasetID filename content opts = (s3, Inr [])
         \<and> selectIsDuplicate env opts = Inr isDuplicate
         \<and> Vectorstore s2 = Vectorstore s \<and> files (IndexDB s2) = files (IndexDB s)"
  using assms beforeDuplicateCheck_frame[OF assms(1)] by (simp add: Ingest_def)

theorem Ingest_duplicate_returns_nil_witness:
  "beforeDuplicateCheck exampleEnv boundDatastore ''ds'' ''a.txt'' ''ab''
       (exampleOpts\<lparr>IsDuplicateFuncName := ''always''\<rparr>)
     = Inr (boundDatastore, (\<lambda>s datasetID opts. (s, Inr True)), ''file-1'', ''txt'')
   \<and> Ingest exampleEnv boundDatastore ''ds'' ''a.txt'' ''ab''
       (exampleOpts\<lparr>IsDuplicateFuncName := ''always''\<rparr>) = (boundDatastore, Inr [])"
proof -
  let ?opts = "exampleOpts\<lparr>IsDuplicateFuncName := ''always''\<rparr>"
  have b: "beforeDuplicateCheck exampleEnv boundDatastore ''ds'' ''a.txt'' ''ab'' ?opts
     = Inr (boundDatastore, (\<lambda>s datasetID opts. (s, Inr True)), ''file-1'', ''txt'')"
    by (simp add: ex_defs ingest_defs)
  have d: "(\<lambda>s datasetID opts. (s, Inr True)) boundDatastore ''ds'' (IngestOptsData.truncate ?opts)
             = (boundDatastore, Inr True)"
    by simp
  from Ingest_duplicate_returns_nil[OF b d] b show ?thesis by simp
qed

theorem Ingest_duplicate_counterexample:
  "snd (Ingest exampleEnv freshDatastore ''ds'' ''a.txt'' ''ab''
          (exampleOpts\<lparr>IsDuplicateFuncName := ''always''\<rparr>)) = Inr []
   \<and> IndexDB (fst (Ingest exampleEnv freshDatastore ''ds'' ''a.txt'' ''ab''
          (exampleOpts\<lparr>IsDuplicateFuncName := ''always''\<rparr>))) \<noteq> IndexDB freshDatastore"
proof -
  let ?r = "Ingest exampleEnv freshDatastore ''ds'' ''a.txt'' ''ab''
          (exampleOpts\<lparr>IsDuplicateFuncName := ''always''\<rparr>)"
  have a: "snd ?r = Inr []"
    by (simp add: ex_defs ingest_defs)
  have "datasets (IndexDB (fst ?r)) ''ds''
          = Some \<lparr>Dataset_ID = ''ds'', EmbeddingsProviderConfig = Some (modelConfig ''model-a'')\<rparr>"
    by (simp add: ex_defs ingest_defs modelConfig_def)
  moreover have "datasets (IndexDB freshDatastore) ''ds''
          = Some \<lparr>Dataset_ID = ''ds'', EmbeddingsProviderConfig = None\<rparr>"
    by (simp add: freshDatastore_def)
  ultimately have "IndexDB (fst ?r) \<noteq> IndexDB freshDatastore" by auto
  with a show ?thesis by simp
qed

text \<open>
  Claim C9, as amended. If a call reaches the ingestion flow (the duplicate check
  answered false, a loader is resolved) and the flow produces no chunks, then Ingest
  returns \<open>(nil, nil)\<close> without touching the vector store or the files of the index:
  the rows stored for the same absolute path are not removed, no row is added and no
  file is recorded, since the return comes before the replace step. (The dataset's
  embedding configuration may have been bound in step 2, so some persisted state can
  have changed.)
\<close>

theorem Ingest_no_chunks_returns_nil:
  assumes "beforeDuplicateCheck env s datasetID filename content opts
             = Inr (s2, isDuplicate, fileID, filetype)"
    and "isDuplicate s2 datasetID (IngestOptsData.truncate opts) = (s3, Inr False)"
    and "FillDefaults env (selectIngestionFlow opts filetype) filetype = Inr ingestionFlow"
    and "Flow_Load ingestionFlow \<noteq> None"
    and "FileMetadata opts = Some fm"
    and "Run (withMandatoryMetadata s3 filename fm opts ingestionFlow) content filename = Inr []"
  shows "Ingest env s datasetID filename content opts = (s3, Inr [])
         \<and> Vectorstore s2 = Vectorstore s \<and> files (IndexDB s2) = files (IndexDB s)"
  using assms beforeDuplicateCheck_frame[OF assms(1)]
  by (simp add: Ingest_def resolveAndRun_def)

theorem Ingest_no_chunks_returns_nil_witness:
  "beforeDuplicateCheck exampleEnv boundDatastore ''ds'' ''a.txt'' [] exampleOpts
     = Inr (boundDatastore, DedupeUpsert exampleEnv, ''file-1'', ''txt'')
   \<and> Ingest exampleEnv boundDatastore ''ds'' ''a.txt'' [] exampleOpts = (boundDatastore, Inr [])
   \<and> rows (Vectorstore boundDatastore) = [oldRow, otherRow]"
proof -
  let ?fm = "\<lparr>File_Name = ''a.txt'', AbsolutePath = ''/data/a.txt'', Size = 2, ModifiedAt = 0\<rparr>"
  let ?flow = "emptyIngestionFlow\<lparr>Flow_Load := Some charsLoader\<rparr>"
  have b: "beforeDuplicateCheck exampleEnv boundDatastore ''ds'' ''a.txt'' [] exampleOpts
     = Inr (boundDatastore, DedupeUpsert exampleEnv, ''file-1'', ''txt'')"
    by (simp add: ex_defs ingest_defs)
  have d: "DedupeUpsert exampleEnv boundDatastore ''ds'' (IngestOptsData.truncate exampleOpts)
             = (boundDatastore, Inr False)"
    by (simp add: exampleEnv_simps)
  have f: "FillDefaults exampleEnv (selectIngestionFlow exampleOpts ''txt'') ''txt'' = Inr ?flow"
    by (simp add: exampleEnv_simps selectIngestionFlow_def exampleOpts_def emptyIngestionFlow_def)
  have l: "Flow_Load ?flow \<noteq> None" by simp
  have m: "FileMetadata exampleOpts = Some ?fm" by (simp add: exampleOpts_def)
  have r: "Run (withMandatoryMetadata boundDatastore ''a.txt'' ?fm exampleOpts ?flow) [] ''a.txt'' = Inr []"
    unfolding Run_withMandatoryMetadata
    by (simp add: Run_def runConverter_def emptyIngestionFlow_def charsLoader_def
          ExtraMetadata_Transform_def)
  from Ingest_no_chunks_returns_nil[OF b d f l m r] b show ?thesis
    by (simp add: boundDatastore_def)
qed

theorem Ingest_no_chunks_counterexample:
  "snd (Ingest exampleEnv freshDatastore ''ds'' ''a.txt'' [] exampleOpts) = Inr []
   \<and> IndexDB (fst (Ingest exampleEnv freshDatastore ''ds'' ''a.txt'' [] exampleOpts))
       \<noteq> IndexDB freshDatastore"
proof -
  let ?r = "Ingest exampleEnv freshDatastore ''ds'' ''a.txt'' [] exampleOpts"
  have a: "snd ?r = Inr []"
    by (simp add: ex_defs ingest_defs)
  have "datasets (IndexDB (fst ?r)) ''ds''
          = Some \<lparr>Dataset_ID = ''ds'', EmbeddingsProviderConfig = Some (modelConfig ''model-a'')\<rparr>"
    by (simp add: ex_defs ingest_defs modelConfig_def)
  moreover have "datasets (IndexDB freshDatastore) ''ds''
          = Some \<lparr>Dataset_ID = ''ds'', EmbeddingsProviderConfig = None\<rparr>"
    by (simp add: freshDatastore_def)
  ultimately have "IndexDB (fst ?r) \<noteq> IndexDB freshDatastore" by auto
  with a show ?thesis by simp
qed

text \<open>
  Claim C4, as amended. \<open>Datastore.Ingest\<close> has no error-on-unsupported-file setting:
  when no flow, configured or default, resolves a loader for the detected filetype, it
  returns no document IDs and the \<open>UnsupportedFileTypeError\<close> for the filetype and the
  file's absolute path, having changed neither the vector store nor the files of the
  index. For a workspace path \<open>IngestPaths\<close> returns with that error whatever
  \<open>ErrOnUnsupportedFile\<close> says, and \<open>ClientIngest.run\<close> sets the option to true for a
  workspace path and for a single file that is not a zip archive. (Treating the error as
  a skip when the option is false is left to the directory walk.)
\<close>

theorem Ingest_unsupported_filetype:
  assumes "beforeDuplicateCheck env s datasetID filename content opts
             = Inr (s2, isDuplicate, fileID, filetype)"
    and "isDuplicate s2 datasetID (IngestOptsData.truncate opts) = (s3, Inr False)"
    and "FillDefaults env (selectIngestionFlow opts filetype) filetype = Inr ingestionFlow"
    and "Flow_Load ingestionFlow = None"
    and "FileMetadata opts = Some fm"
  shows "Ingest env s datasetID filename content opts
           = (s3, Inl (UnsupportedFileTypeError filetype (AbsolutePath fm)))
         \<and> Vectorstore s2 = Vectorstore s \<and> files (IndexDB s2) = files (IndexDB s)
         \<and> (\<forall>cenv st popts b path. hasPrefix path ''ws://'' \<longrightarrow>
               IngestPaths cenv st datasetID (popts\<lparr>ErrOnUnsupportedFile := b\<rparr>) [path]
                 = IngestPaths cenv st datasetID popts [path])
         \<and> (\<forall>cenv flag path. hasPrefix path ''ws://'' \<longrightarrow>
               run_ErrOnUnsupportedFile cenv flag path = Inr True)
         \<and> (\<forall>cenv flag path finfo.
               \<not> hasPrefix path ''ws://'' \<and> Stat cenv path = Inr finfo \<and> \<not> IsDir finfo
                 \<and> Ext path \<noteq> ''.zip'' \<longrightarrow>
               run_ErrOnUnsupportedFile cenv flag path = Inr True)"
proof -
  have "Ingest env s datasetID filename content opts
           = (s3, Inl (UnsupportedFileTypeError filetype (AbsolutePath fm)))
         \<and> Vectorstore s2 = Vectorstore s \<and> files (IndexDB s2) = files (IndexDB s)"
    using assms beforeDuplicateCheck_frame[OF assms(1)]
    by (simp add: Ingest_def resolveAndRun_def)
  moreover have "IngestPaths cenv st datasetID (popts\<lparr>ErrOnUnsupportedFile := b\<rparr>) [path]
                 = IngestPaths cenv st datasetID popts [path]"
    if "hasPrefix path ''ws://''" for cenv st path b and popts :: IngestPathsOpts
    using that by (simp add: IngestPaths_def SharedIngestionOpts.truncate_def)
  moreover have "run_ErrOnUnsupportedFile cenv flag path = Inr True"
    if "hasPrefix path ''ws://''" for cenv :: ClientEnv and flag path
    using that by (simp add: run_ErrOnUnsupportedFile_def)
  moreover have "run_ErrOnUnsupportedFile cenv flag path = Inr True"
    if "\<not> hasPrefix path ''ws://'' \<and> Stat cenv path = Inr finfo \<and> \<not> IsDir finfo
          \<and> Ext path \<noteq> ''.zip''" for cenv :: ClientEnv and flag path finfo
    using that by (simp add: run_ErrOnUnsupportedFile_def)
  ultimately show ?thesis by blast
qed

theorem Ingest_unsupported_filetype_witness:
  "beforeDuplicateCheck exampleEnv boundDatastore ''ds'' ''notes.bin'' ''xyz'' exampleOpts
     = Inr (boundDatastore, DedupeUpsert exampleEnv, ''file-1'', ''bin'')
   \<and> Ingest exampleEnv boundDatastore ''ds'' ''notes.bin'' ''xyz'' exampleOpts
       = (boundDatastore, Inl (UnsupportedFileTypeError ''bin'' ''/data/a.txt''))
   \<and> run_ErrOnUnsupportedFile exampleClientEnv False ''ws://notes.bin'' = Inr True
   \<and> run_ErrOnUnsupportedFile exampleClientEnv False ''/data/notes.bin'' = Inr True"
proof -
  let ?fm = "\<lparr>File_Name = ''a.txt'', AbsolutePath = ''/data/a.txt'', Size = 2, ModifiedAt = 0\<rparr>"
  have b: "beforeDuplicateCheck exampleEnv boundDatastore ''ds'' ''notes.bin'' ''xyz'' exampleOpts
     = Inr (boundDatastore, DedupeUpsert exampleEnv, ''file-1'', ''bin'')"
    by (simp add: ex_defs ingest_defs)
  have d: "DedupeUpsert exampleEnv boundDatastore ''ds'' (IngestOptsData.truncate exampleOpts)
             = (boundDatastore, Inr False)"
    by (simp add: exampleEnv_simps)
  have f: "FillDefaults exampleEnv (selectIngestionFlow exampleOpts ''bin'') ''bin''
             = Inr emptyIngestionFlow"
    by (simp add: exampleEnv_simps selectIngestionFlow_def exampleOpts_def emptyIngestionFlow_def)
  have l: "Flow_Load emptyIngestionFlow = None" by (simp add: emptyIngestionFlow_def)
  have m: "FileMetadata exampleOpts = Some ?fm" by (simp add: exampleOpts_def)
  note t = Ingest_unsupported_filetype[OF b d f l m]
  have w: "hasPrefix ''ws://notes.bin'' ''ws://''" by (simp add: hasPrefix_def)
  have s: "\<not> hasPrefix ''/data/notes.bin'' ''ws://''
           \<and> Stat exampleClientEnv ''/data/notes.bin''
               = Inr \<lparr>Info_Name = Base ''/data/notes.bin'', WorkspaceID = [], Info_Size = 3,
                      ModTime = 0, IsDir = False\<rparr>
           \<and> \<not> IsDir \<lparr>Info_Name = Base ''/data/notes.bin'', WorkspaceID = [], Info_Size = 3,
                      ModTime = 0, IsDir = False\<rparr>
           \<and> Ext ''/data/notes.bin'' \<noteq> ''.zip''"
    by (simp add: hasPrefix_def exampleClientEnv_def Ext_def)
  from t have "run_ErrOnUnsupportedFile exampleClientEnv False ''ws://notes.bin'' = Inr True"
    using w by blast
  moreover from t have "run_ErrOnUnsupportedFile exampleClientEnv False ''/data/notes.bin'' = Inr True"
    using s by blast
  ultimately show ?thesis using t b by simp
qed

theorem Ingest_unsupported_filetype_counterexample:
  "ErrOnUnsupportedFile skippingPathsOpts = False
   \<and> IngestPaths exampleClientEnv boundDatastore ''ds'' skippingPathsOpts [''ws://notes.bin'']
       = (boundDatastore, 1, 0, Some (UnsupportedFileTypeError ''bin'' ''ws://w1/notes.bin''))"
  by (simp add: IngestPaths_def IngestFromWorkspace_def Client_Ingest_def truncate_exampleClientEnv
      hasPrefix_def trimPrefix_def skippingPathsOpts_def SharedIngestionOpts.truncate_def
      exampleClientEnv_simps ex_defs ingest_defs)








end
